theory Spec2Isabelle
  imports Main "HOL-Library.Word"
begin

section \<open>JavaScript strings and the string methods used by \<open>server.js\<close>\<close>

text \<open>
  A JavaScript string is modelled as a \<^typ>\<open>string\<close>: a list of code units, each below 256.
  On such strings the methods below are the ECMAScript ones; strings holding a code unit
  above 255 are outside the model.

  What the runtime and the libraries do (\<open>new URL\<close>, \<open>decodeURIComponent\<close>, \<open>axios\<close>,
  \<open>Buffer.toString\<close>, \<open>pdfjs-dist\<close>, \<open>mammoth\<close>) is a parameter of the model, the record
  \<open>platform\<close>: a call that throws or rejects returns \<open>Inl\<close> with the message of the error.
  The query parameter \<open>url\<close> is a string or absent. Only an error of \<open>axios\<close> can carry a
  \<open>response\<close>. Times are in milliseconds.
\<close>

definition orElse :: "string \<Rightarrow> string \<Rightarrow> string" where
  \<comment> \<open>\<open>a || b\<close> on strings: the empty string is falsy.\<close>
  "orElse a b = (if a = [] then b else a)"

fun split_js :: "char \<Rightarrow> string \<Rightarrow> string list" where
  \<comment> \<open>\<open>s.split(d)\<close> for a one-character separator: never the empty array.\<close>
  "split_js d [] = [[]]"
| "split_js d (c # cs) =
     (if c = d then [] # split_js d cs
      else (case split_js d cs of
              [] \<Rightarrow> [[c]]
            | x # xs \<Rightarrow> (c # x) # xs))"

definition pop :: "string list \<Rightarrow> string option" where
  \<comment> \<open>\<open>a.pop()\<close>: the last element, \<open>undefined\<close> on the empty array.\<close>
  "pop a = (if a = [] then None else Some (last a))"

definition popOrEmpty :: "string list \<Rightarrow> string" where
  \<comment> \<open>\<open>(a.pop() || '')\<close>\<close>
  "popOrEmpty a = (case pop a of None \<Rightarrow> [] | Some s \<Rightarrow> orElse s [])"

definition isWhiteSpace :: "char \<Rightarrow> bool" where
  \<comment> \<open>What \<open>trim\<close> removes, among the code units below 256: TAB, LF, VT, FF, CR, SP, NBSP.\<close>
  "isWhiteSpace c = (of_char c \<in> {9, 10, 11, 12, 13, 32, 160 :: nat})"

definition trim :: "string \<Rightarrow> string" where
  "trim s = rev (dropWhile isWhiteSpace (rev (dropWhile isWhiteSpace s)))"

definition toLowerChar :: "char \<Rightarrow> char" where
  \<comment> \<open>A-Z, and the capital letters of the Latin-1 block (U+00C0..U+00DE without U+00D7).\<close>
  "toLowerChar c =
     (let n = (of_char c :: nat) in
      if (65 \<le> n \<and> n \<le> 90) \<or> (192 \<le> n \<and> n \<le> 222 \<and> n \<noteq> 215)
      then char_of (n + 32) else c)"

definition toLowerCase :: "string \<Rightarrow> string" where
  "toLowerCase s = map toLowerChar s"

definition isLineBreak :: "char \<Rightarrow> bool" where
  \<comment> \<open>the class \<open>[\r\n]\<close>\<close>
  "isLineBreak c = (of_char c \<in> {10, 13 :: nat})"

definition stripLineBreaks :: "string \<Rightarrow> string" where
  \<comment> \<open>\<open>s.replace(/[\r\n]/g, '')\<close>\<close>
  "stripLineBreaks s = filter (\<lambda>c. \<not> isLineBreak c) s"

definition isLowerAlnum :: "char \<Rightarrow> bool" where
  \<comment> \<open>the class \<open>[a-z0-9]\<close>\<close>
  "isLowerAlnum c =
     (let n = (of_char c :: nat) in (97 \<le> n \<and> n \<le> 122) \<or> (48 \<le> n \<and> n \<le> 57))"

definition stripNonAlnum :: "string \<Rightarrow> string" where
  \<comment> \<open>\<open>s.replace(/[^a-z0-9]/g, '')\<close>\<close>
  "stripNonAlnum s = filter isLowerAlnum s"

fun startsWith :: "string \<Rightarrow> string \<Rightarrow> bool" where
  "startsWith s [] = True"
| "startsWith [] (p # ps) = False"
| "startsWith (c # cs) (p # ps) = (c = p \<and> startsWith cs ps)"

fun includes_js :: "string \<Rightarrow> string \<Rightarrow> bool" where
  \<comment> \<open>\<open>s.includes(n)\<close>: \<open>n\<close> occurs in \<open>s\<close> as a contiguous substring.\<close>
  "includes_js [] n = (n = [])"
| "includes_js (c # cs) n = (startsWith (c # cs) n \<or> includes_js cs n)"

definition slice0 :: "nat \<Rightarrow> string \<Rightarrow> string" where
  \<comment> \<open>\<open>s.slice(0, n)\<close>\<close>
  "slice0 n s = take n s"

section \<open>File name and extension from a URL path (\<open>/extract\<close>, lines 88-91 and 107-110)\<close>

definition extOfFilename :: "string \<Rightarrow> string" where
  \<comment> \<open>\<open>ext = (filename.split('.').pop() || '').toLowerCase().trim();
      ext = ext.replace(/[^a-z0-9]/g, '')\<close>\<close>
  "extOfFilename filename =
     stripNonAlnum (trim (toLowerCase (popOrEmpty (split_js (CHR ''.'') filename))))"

definition sanitizeFilename :: "string \<Rightarrow> string" where
  \<comment> \<open>\<open>decoded.trim()\<close>, then \<open>filename.replace(/[\r\n]/g, '').trim()\<close>\<close>
  "sanitizeFilename decoded = trim (stripLineBreaks (trim decoded))"

definition lastSegment :: "string \<Rightarrow> string" where
  \<comment> \<open>\<open>(pathname.split('/').pop() || '')\<close>\<close>
  "lastSegment pathname = popOrEmpty (split_js (CHR ''/'') pathname)"

definition nameAndExt ::
  "(string \<Rightarrow> string + string) \<Rightarrow> string \<Rightarrow> string + (string \<times> string)" where
  \<comment> \<open>The four assignments to \<open>filename\<close> and \<open>ext\<close>. The first argument is
      \<open>decodeURIComponent\<close>, \<open>Inl m\<close> when it throws a \<open>URIError\<close> with message \<open>m\<close>.\<close>
  "nameAndExt decodeURIComponent pathname =
     (case decodeURIComponent (lastSegment pathname) of
        Inl m \<Rightarrow> Inl m
      | Inr decoded \<Rightarrow>
          (let filename = sanitizeFilename decoded
           in Inr (filename, extOfFilename filename)))"

section \<open>Values exchanged with the platform\<close>

type_synonym bytes = "8 word list"

type_synonym header_map = "(string \<rightharpoonup> string) option"
  \<comment> \<open>\<open>response.headers\<close>; \<open>None\<close> when the property is missing.\<close>

record axios_config =
  cfg_url :: string
  cfg_method :: string
  cfg_responseType :: string
  cfg_timeout :: nat
  cfg_maxRedirects :: nat

record axios_response =
  responseUrl :: "string option"
    \<comment> \<open>\<open>response.request.res.responseUrl\<close>, \<open>None\<close> when a link of the chain is missing\<close>
  configUrl :: "string option"
    \<comment> \<open>\<open>response.config.url\<close>\<close>
  headers :: header_map
  data :: bytes

datatype body =
    StringBody string
  | BufferBody bytes
  | OtherBody "string option"
    \<comment> \<open>neither a string nor a Buffer: the value carries \<open>JSON.stringify(body)\<close>, \<open>None\<close> when
        that call throws or returns \<open>undefined\<close>\<close>

record upstream =
  up_status :: nat
  up_headers :: header_map
  up_data :: body

record js_error =
  err_message :: string
  err_response :: "upstream option"

datatype axios_outcome = Resolved axios_response | Rejected js_error

type_synonym page = "string + string list"
  \<comment> \<open>\<open>doc.getPage(i)\<close> then \<open>page.getTextContent()\<close>: the \<open>str\<close> of each item in order, or
      \<open>Inl m\<close> when one of the two rejects with message \<open>m\<close>\<close>

record pdf_doc =
  numPages :: nat
  getPage :: "nat \<Rightarrow> page"

type_synonym pdf_engine = "bytes \<Rightarrow> string + pdf_doc"
  \<comment> \<open>\<open>pdfjsLib.getDocument({ data }).promise\<close>\<close>

datatype init_run =
    Resolves nat pdf_engine
  | Rejects nat string
  | Never
  \<comment> \<open>One call of \<open>initPdfjs()\<close>: it sets \<open>pdfjsLib\<close> and resolves, or rejects with a message,
      so many milliseconds after the call, or it never settles.\<close>

record platform =
  urlPathname :: "string \<Rightarrow> string + string"
    \<comment> \<open>\<open>new URL(u).pathname\<close>, \<open>Inl m\<close> when the constructor throws with message \<open>m\<close>\<close>
  decodeURIComponent :: "string \<Rightarrow> string + string"
  axios :: "axios_config \<Rightarrow> axios_outcome"
  utf8Decode :: "bytes \<Rightarrow> string"
    \<comment> \<open>what \<open>Buffer.prototype.toString('utf8', ...)\<close> makes of the selected bytes\<close>
  initPdfjs :: init_run
  extractRawText :: "bytes \<Rightarrow> string + string"
    \<comment> \<open>\<open>mammoth.extractRawText({ buffer })\<close>, then \<open>.value\<close>\<close>

record proc =
  pdfjsLib :: "pdf_engine option"
  initCalls :: nat
    \<comment> \<open>how many times \<open>initPdfjs()\<close> has been called so far\<close>

datatype jsval = JStr string | JNum nat | JUndefined

datatype http_response =
    Json nat "(string \<times> jsval) list"
    \<comment> \<open>\<open>res.status(n).json({...})\<close>\<close>
  | Send string string
    \<comment> \<open>\<open>res.set('Content-Type', t); res.send(text)\<close>, status 200\<close>

fun statusOf :: "http_response \<Rightarrow> nat" where
  "statusOf (Json n _) = n"
| "statusOf (Send _ _) = 200"

fun field :: "http_response \<Rightarrow> string \<Rightarrow> jsval option" where
  "field (Json _ kvs) k = map_of kvs k"
| "field (Send _ _) k = None"

section \<open>\<open>extractPdf\<close> and \<open>extractDocx\<close>\<close>

fun join :: "string \<Rightarrow> string list \<Rightarrow> string" where
  \<comment> \<open>\<open>strings.join(sep)\<close>\<close>
  "join sep [] = []"
| "join sep [x] = x"
| "join sep (x # y # ys) = x @ sep @ join sep (y # ys)"

function pdfLoop :: "pdf_doc \<Rightarrow> nat \<Rightarrow> string \<Rightarrow> string + string" where
  \<comment> \<open>\<open>for (let i = ...; i <= doc.numPages; i++) { ... text += strings.join(' ') + '\n' }\<close>\<close>
  "pdfLoop doc i text =
     (if i \<le> numPages doc
      then (case getPage doc i of
              Inl m \<Rightarrow> Inl m
            | Inr strings \<Rightarrow> pdfLoop doc (i + 1) (text @ join '' '' strings @ [CHR 0x0A]))
      else Inr text)"
  by pat_completeness auto
termination
  by (relation "measure (\<lambda>(doc, i, text). numPages doc + 1 - i)") auto

definition extractPdf :: "pdf_engine \<Rightarrow> bytes \<Rightarrow> string + string" where
  "extractPdf lib buffer =
     (case lib buffer of
        Inl m \<Rightarrow> Inl m
      | Inr doc \<Rightarrow> pdfLoop doc 1 [])"

definition extractDocx :: "platform \<Rightarrow> bytes \<Rightarrow> string + string" where
  "extractDocx w buffer = extractRawText w buffer"

declare pdfLoop.simps [simp del]

section \<open>The \<open>/extract\<close> handler\<close>

subsection \<open>Type detection (lines 77-122)\<close>

definition requestConfig :: "string \<Rightarrow> axios_config" where
  \<comment> \<open>the object literal passed to \<open>axios\<close> at lines 94-100\<close>
  "requestConfig u =
     \<lparr>cfg_url = u, cfg_method = ''GET'', cfg_responseType = ''arraybuffer'',
      cfg_timeout = 30000, cfg_maxRedirects = 5\<rparr>"

definition strOf :: "string option \<Rightarrow> string" where
  \<comment> \<open>a missing property behaves like the empty string under \<open>||\<close> and \<open>!\<close>\<close>
  "strOf v = (case v of None \<Rightarrow> [] | Some s \<Rightarrow> s)"

definition finalUrlOf :: "axios_response \<Rightarrow> string \<Rightarrow> string" where
  \<comment> \<open>line 103\<close>
  "finalUrlOf r u = orElse (strOf (responseUrl r)) (orElse (strOf (configUrl r)) u)"

definition contentTypeOf :: "header_map \<Rightarrow> string" where
  \<comment> \<open>\<open>(h && (h['content-type'] || h['Content-Type'])) || ''\<close>, lines 116 and 159\<close>
  "contentTypeOf h =
     (case h of
        None \<Rightarrow> []
      | Some m \<Rightarrow> orElse (orElse (strOf (m ''content-type'')) (strOf (m ''Content-Type''))) [])"

definition refineName ::
  "platform \<Rightarrow> string \<times> string \<Rightarrow> string \<Rightarrow> string \<times> string" where
  \<comment> \<open>lines 104-114: the inner \<open>try\<close> swallows a failing \<open>new URL\<close> or
      \<open>decodeURIComponent\<close>, leaving \<open>filename\<close> and \<open>ext\<close> as they were\<close>
  "refineName w fe finalUrl =
     (if fst fe = [] \<and> finalUrl \<noteq> []
      then (case urlPathname w finalUrl of
              Inl _ \<Rightarrow> fe
            | Inr p \<Rightarrow> (case nameAndExt (decodeURIComponent w) p of
                          Inl _ \<Rightarrow> fe
                        | Inr fe' \<Rightarrow> fe'))
      else fe)"

definition inferExt :: "string \<Rightarrow> string \<Rightarrow> string" where
  \<comment> \<open>lines 119-122\<close>
  "inferExt ext contentType =
     (if ext = []
      then (if includes_js contentType ''pdf'' then ''pdf''
            else if includes_js contentType ''officedocument'' \<or> includes_js contentType ''word''
                    \<or> includes_js contentType ''msword''
                    \<or> includes_js contentType ''application/vnd''
                 then ''docx''
                 else ext)
      else ext)"

definition detect ::
  "platform \<Rightarrow> string \<times> string \<Rightarrow> string \<Rightarrow> axios_response \<Rightarrow> string \<times> string" where
  \<comment> \<open>lines 103-122: \<open>(filename, ext)\<close> once the response is in, from the pair computed
      before the fetch\<close>
  "detect w fe u response =
     (let fe' = refineName w fe (finalUrlOf response u)
      in (fst fe', inferExt (snd fe') (contentTypeOf (headers response))))"

subsection \<open>Error translation (lines 154-205)\<close>

definition bodyPreview :: "platform \<Rightarrow> body \<Rightarrow> string option" where
  \<comment> \<open>lines 160-172; \<open>None\<close> is \<open>undefined\<close>\<close>
  "bodyPreview w b =
     (case b of
        StringBody s \<Rightarrow> Some (slice0 200 s)
      | BufferBody bs \<Rightarrow> Some (utf8Decode w (take 200 bs))
      | OtherBody j \<Rightarrow> (case j of None \<Rightarrow> None | Some s \<Rightarrow> Some (slice0 200 s)))"

fun startsWithCI :: "string \<Rightarrow> string \<Rightarrow> bool" where
  \<comment> \<open>the pattern's characters matched one by one under the flag \<open>i\<close>\<close>
  "startsWithCI s [] = True"
| "startsWithCI [] (p # ps) = False"
| "startsWithCI (c # cs) (p # ps) = (toLowerChar c = toLowerChar p \<and> startsWithCI cs ps)"

fun afterExp :: "string \<Rightarrow> bool" where
  \<comment> \<open>\<open>.*(fail|expired)\<close> matched from the head of the string; \<open>.\<close> takes no line break\<close>
  "afterExp [] = False"
| "afterExp (c # cs) =
     (startsWithCI (c # cs) ''fail'' \<or> startsWithCI (c # cs) ''expired''
      \<or> (\<not> isLineBreak c \<and> afterExp cs))"

fun expPatternTest :: "string \<Rightarrow> bool" where
  \<comment> \<open>\<open>/exp.*(fail|expired)/i.test(s)\<close>\<close>
  "expPatternTest [] = False"
| "expPatternTest (c # cs) =
     ((startsWithCI (c # cs) ''exp'' \<and> afterExp (drop 3 (c # cs))) \<or> expPatternTest cs)"

definition isInvalidJwt :: "nat \<Rightarrow> string option \<Rightarrow> bool" where
  \<comment> \<open>lines 175-180\<close>
  "isInvalidJwt upstreamStatus upstreamBodyPreview =
     (let previewLower = toLowerCase (strOf upstreamBodyPreview)
      in upstreamStatus = 400 \<and>
         (includes_js previewLower ''invalidjwt''
          \<or> includes_js previewLower (CHR 0x22 # ''exp'' @ [CHR 0x22])
          \<or> expPatternTest (strOf upstreamBodyPreview)))"

definition jsOpt :: "string option \<Rightarrow> jsval" where
  "jsOpt v = (case v of None \<Rightarrow> JUndefined | Some s \<Rightarrow> JStr s)"

definition upstreamError :: "platform \<Rightarrow> upstream \<Rightarrow> string \<Rightarrow> http_response" where
  \<comment> \<open>lines 157-198\<close>
  "upstreamError w up msg =
     (let upstreamStatus = up_status up;
          upstreamType = contentTypeOf (up_headers up);
          upstreamBodyPreview = bodyPreview w (up_data up)
      in if isInvalidJwt upstreamStatus upstreamBodyPreview
         then Json 401
                [(''error'', JStr ''Upstream token invalid or expired''),
                 (''upstreamStatus'', JNum upstreamStatus),
                 (''upstreamContentType'', JStr upstreamType),
                 (''upstreamBodyPreview'', jsOpt upstreamBodyPreview),
                 (''suggestion'', JStr ''Regenerate signed URL or refresh token'')]
         else Json 502
                [(''error'', JStr ''Upstream fetch failed''),
                 (''upstreamStatus'', JNum upstreamStatus),
                 (''upstreamContentType'', JStr upstreamType),
                 (''upstreamBodyPreview'', jsOpt upstreamBodyPreview),
                 (''message'', JStr msg)])"

definition catchBlock :: "platform \<Rightarrow> js_error \<Rightarrow> http_response" where
  \<comment> \<open>lines 154-205\<close>
  "catchBlock w err =
     (case err_response err of
        Some up \<Rightarrow> upstreamError w up (err_message err)
      | None \<Rightarrow>
          Json 500 [(''error'', JStr ''Extraction failed''), (''message'', JStr (err_message err))])"

definition thrown :: "string \<Rightarrow> js_error" where
  \<comment> \<open>an error raised by the runtime or by an extraction library: it has no \<open>response\<close>\<close>
  "thrown m = \<lparr>err_message = m, err_response = None\<rparr>"

subsection \<open>Dispatch (lines 124-153)\<close>

definition initTimeout :: nat where
  \<comment> \<open>the delay of the \<open>setTimeout\<close> racing against \<open>initPdfjs()\<close>, in milliseconds\<close>
  "initTimeout = 5000"

definition raceInit :: "init_run \<Rightarrow> string + pdf_engine" where
  \<comment> \<open>\<open>Promise.race([initPdfjs(), <reject after 5000 ms>])\<close>: the promise that settles first
      decides; \<open>Inl\<close> carries the message of the rejection. A call settling at the very
      instant the timer fires is given to the timer.\<close>
  "raceInit r =
     (case r of
        Resolves t lib \<Rightarrow> if t < initTimeout then Inr lib else Inl ''pdfjs init timeout''
      | Rejects t m \<Rightarrow> if t < initTimeout then Inl m else Inl ''pdfjs init timeout''
      | Never \<Rightarrow> Inl ''pdfjs init timeout'')"

definition readinessCheck :: "proc \<Rightarrow> proc" where
  \<comment> \<open>lines 128-131, up to the \<open>await\<close>: a request that finds \<open>pdfjsLib\<close> unset calls
      \<open>initPdfjs()\<close> itself\<close>
  "readinessCheck st =
     (case pdfjsLib st of
        None \<Rightarrow> st\<lparr>initCalls := initCalls st + 1\<rparr>
      | Some _ \<Rightarrow> st)"

definition ensurePdfjs :: "platform \<Rightarrow> proc \<Rightarrow> proc \<times> (string + pdf_engine)" where
  \<comment> \<open>lines 128-137: the engine to use, or the message of the error caught at line 134\<close>
  "ensurePdfjs w st =
     (let st' = readinessCheck st
      in case pdfjsLib st of
           Some lib \<Rightarrow> (st', Inr lib)
         | None \<Rightarrow>
             (case raceInit (initPdfjs w) of
                Inl m \<Rightarrow> (st', Inl m)
              | Inr lib \<Rightarrow> (st'\<lparr>pdfjsLib := Some lib\<rparr>, Inr lib)))"

definition sendText :: "string \<Rightarrow> http_response" where
  \<comment> \<open>lines 152-153\<close>
  "sendText text = Send ''text/plain; charset=utf-8'' text"

definition dispatch ::
  "platform \<Rightarrow> proc \<Rightarrow> string \<times> string \<Rightarrow> string \<Rightarrow> string \<Rightarrow> bytes \<Rightarrow> proc \<times> http_response"
  where
  "dispatch w st fe contentType finalUrl buffer =
     (if snd fe = ''pdf''
      then (case ensurePdfjs w st of
              (st', Inl m) \<Rightarrow>
                (st', Json 503 [(''error'', JStr ''PDF handler not ready''), (''message'', JStr m)])
            | (st', Inr lib) \<Rightarrow>
                (case extractPdf lib buffer of
                   Inl m \<Rightarrow> (st', catchBlock w (thrown m))
                 | Inr text \<Rightarrow> (st', sendText text)))
      else if snd fe = ''docx''
      then (case extractDocx w buffer of
              Inl m \<Rightarrow> (st, catchBlock w (thrown m))
            | Inr text \<Rightarrow> (st, sendText text))
      else (st, Json 400
                 [(''error'', JStr ''Unsupported file type... Use .pdf or .docx''),
                  (''filename'', JStr (fst fe)),
                  (''detectedExtension'', JStr (snd fe)),
                  (''contentType'', JStr contentType),
                  (''finalUrl'', JStr finalUrl)]))"

subsection \<open>The handler (lines 64-206)\<close>

record outcome =
  out_state :: proc
  out_response :: http_response
  out_fetches :: "axios_config list"
    \<comment> \<open>the calls of \<open>axios\<close> made while handling the request\<close>

definition extractHandler :: "platform \<Rightarrow> proc \<Rightarrow> string option \<Rightarrow> outcome" where
  \<comment> \<open>The third argument is \<open>req.query.url\<close>, \<open>None\<close> when the parameter is absent.\<close>
  "extractHandler w st q =
     (let u = strOf q
      in if u = []
         then \<lparr>out_state = st,
               out_response = Json 400 [(''error'', JStr ''Missing URL parameter'')],
               out_fetches = []\<rparr>
         else (case urlPathname w u of
                 Inl m \<Rightarrow>
                   \<lparr>out_state = st,
                    out_response =
                      Json 400 [(''error'', JStr ''Invalid URL parameter''), (''message'', JStr m)],
                    out_fetches = []\<rparr>
               | Inr pathname \<Rightarrow>
                   (case nameAndExt (decodeURIComponent w) pathname of
                      Inl m \<Rightarrow>
                        \<lparr>out_state = st, out_response = catchBlock w (thrown m),
                         out_fetches = []\<rparr>
                    | Inr fe \<Rightarrow>
                        (case axios w (requestConfig u) of
                           Rejected err \<Rightarrow>
                             \<lparr>out_state = st, out_response = catchBlock w err,
                              out_fetches = [requestConfig u]\<rparr>
                         | Resolved response \<Rightarrow>
                             (let r = dispatch w st (detect w fe u response)
                                        (contentTypeOf (headers response))
                                        (finalUrlOf response u) (data response)
                              in \<lparr>out_state = fst r, out_response = snd r,
                                  out_fetches = [requestConfig u]\<rparr>)))))"

definition detectedExtension :: "platform \<Rightarrow> string \<Rightarrow> axios_response \<Rightarrow> string + string" where
  \<comment> \<open>the value of \<open>ext\<close> at line 124, for a parsed URL and a fetched response; \<open>Inl\<close> when
      the file name could not be decoded\<close>
  "detectedExtension w u response =
     (case urlPathname w u of
        Inl m \<Rightarrow> Inl m
      | Inr pathname \<Rightarrow>
          (case nameAndExt (decodeURIComponent w) pathname of
             Inl m \<Rightarrow> Inl m
           | Inr fe \<Rightarrow> Inr (snd (detect w fe u response))))"

section \<open>The process around the handler\<close>

definition startupState :: proc where
  \<comment> \<open>the module has been loaded: line 4 leaves \<open>pdfjsLib\<close> unset, line 231 has called
      \<open>initPdfjs()\<close> in the background and nothing has settled yet\<close>
  "startupState = \<lparr>pdfjsLib = None, initCalls = 1\<rparr>"

section \<open>A sample platform\<close>

text \<open>
  The theorems below hold for every platform. Closed instances are stated on the sample
  platform of this section, which behaves as Node.js does on the inputs used there.
\<close>

definition asciiBytes :: "string \<Rightarrow> bytes" where
  "asciiBytes s = map (\<lambda>c. of_nat (of_char c)) s"

fun utf8_latin1 :: "bytes \<Rightarrow> string" where
  \<comment> \<open>Node's decoding on a buffer that is the UTF-8 encoding of code units below 256 (one-
      and two-byte forms). On any other buffer Node yields U+FFFD or a unit above 255, which
      a \<^typ>\<open>string\<close> cannot hold: there this function skips the byte and is not Node's
      decoder. It is applied to buffers of the first kind only.\<close>
  "utf8_latin1 [] = []"
| "utf8_latin1 [b] = (if b < 0x80 then [char_of (unat b)] else [])"
| "utf8_latin1 (b # c # bs) =
     (if b < 0x80 then char_of (unat b) # utf8_latin1 (c # bs)
      else if (b = 0xC2 \<or> b = 0xC3) \<and> 0x80 \<le> c \<and> c < 0xC0
      then char_of (64 * (unat b - 0xC0) + (unat c - 0x80)) # utf8_latin1 bs
      else utf8_latin1 (c # bs))"

definition samplePathname :: "string \<Rightarrow> string + string" where
  \<comment> \<open>the path of \<open>https://files.example/...\<close>, up to the query or fragment; any other string
      is rejected, as \<open>new URL\<close> rejects a string without a scheme\<close>
  "samplePathname u =
     (if startsWith u ''https://files.example/''
      then Inr (takeWhile (\<lambda>c. c \<noteq> CHR ''?'' \<and> c \<noteq> CHR ''#'') (drop 21 u))
      else Inl ''Invalid URL'')"

definition sampleDoc :: pdf_doc where
  "sampleDoc =
     \<lparr>numPages = 3,
      getPage = (\<lambda>i. if i = 1 then Inr [''Annual'', ''report'']
                     else if i = 2 then Inr []
                     else if i = 3 then Inr [''The end'']
                     else Inl ''Invalid page request.'')\<rparr>"

definition sampleEngine :: pdf_engine where
  "sampleEngine buffer = (if buffer = [] then Inl ''The PDF file is empty'' else Inr sampleDoc)"

definition pdfHeaders :: header_map where
  "pdfHeaders = Some [''content-type'' \<mapsto> ''application/pdf'']"

definition jsonHeaders :: header_map where
  "jsonHeaders = Some [''content-type'' \<mapsto> ''application/json'']"

definition pdfResponse :: "string \<Rightarrow> axios_response" where
  \<comment> \<open>a PDF served from the requested URL without a redirect\<close>
  "pdfResponse u =
     \<lparr>responseUrl = Some u, configUrl = Some u, headers = pdfHeaders,
      data = asciiBytes ''%PDF-1.7''\<rparr>"

definition expiredUpstream :: upstream where
  \<open>expiredUpstream =
     \<lparr>up_status = 400, up_headers = jsonHeaders,
      up_data = BufferBody (asciiBytes ''{"error":"InvalidJWT"}'')\<rparr>\<close>

definition expiredError :: js_error where
  "expiredError =
     \<lparr>err_message = ''Request failed with status code 400'',
      err_response = Some expiredUpstream\<rparr>"

definition goneUpstream :: upstream where
  \<open>goneUpstream =
     \<lparr>up_status = 404, up_headers = jsonHeaders,
      up_data = BufferBody (asciiBytes ''{"error":"not found"}'')\<rparr>\<close>

definition goneError :: js_error where
  "goneError =
     \<lparr>err_message = ''Request failed with status code 404'',
      err_response = Some goneUpstream\<rparr>"

definition accentedBody :: bytes where
  \<comment> \<open>the letter U+00E9, two bytes in UTF-8, 101 times\<close>
  "accentedBody = concat (replicate 101 [0xC3, 0xA9])"

definition forbiddenUpstream :: upstream where
  "forbiddenUpstream =
     \<lparr>up_status = 403, up_headers = Some Map.empty, up_data = BufferBody accentedBody\<rparr>"

definition forbiddenError :: js_error where
  "forbiddenError =
     \<lparr>err_message = ''Request failed with status code 403'',
      err_response = Some forbiddenUpstream\<rparr>"

definition expiryUpstream :: upstream where
  \<comment> \<open>a 400 whose body matches the pattern only, in capitals\<close>
  "expiryUpstream =
     \<lparr>up_status = 400, up_headers = Some Map.empty,
      up_data = BufferBody (asciiBytes ''Token EXPIRY check FAILED'')\<rparr>"

definition expiryError :: js_error where
  "expiryError =
     \<lparr>err_message = ''Request failed with status code 400'',
      err_response = Some expiryUpstream\<rparr>"

definition twoLineUpstream :: upstream where
  \<comment> \<open>a 400 whose body has \<open>exp\<close> and \<open>fail\<close> on two lines\<close>
  "twoLineUpstream =
     \<lparr>up_status = 400, up_headers = Some Map.empty,
      up_data = BufferBody (asciiBytes (''exp'' @ [CHR 0x0A] @ ''fail''))\<rparr>"

definition twoLineError :: js_error where
  "twoLineError =
     \<lparr>err_message = ''Request failed with status code 400'',
      err_response = Some twoLineUpstream\<rparr>"

definition sampleAxios :: "axios_config \<Rightarrow> axios_outcome" where
  "sampleAxios cfg =
     (if cfg_url cfg = ''https://files.example/files/report''
         \<or> cfg_url cfg = ''https://files.example/files/report.pdf''
         \<or> cfg_url cfg = ''https://files.example/files/''
      then Resolved (pdfResponse (cfg_url cfg))
      else if cfg_url cfg = ''https://files.example/signed/a.pdf?token=old''
      then Rejected expiredError
      else if cfg_url cfg = ''https://files.example/signed/b.pdf?token=old''
      then Rejected expiryError
      else if cfg_url cfg = ''https://files.example/signed/c.pdf?token=old''
      then Rejected twoLineError
      else if cfg_url cfg = ''https://files.example/gone.pdf''
      then Rejected goneError
      else if cfg_url cfg = ''https://files.example/menu.pdf''
      then Rejected forbiddenError
      else Rejected \<lparr>err_message = ''getaddrinfo ENOTFOUND'', err_response = None\<rparr>)"

definition samplePlatform :: platform where
  "samplePlatform =
     \<lparr>urlPathname = samplePathname,
      decodeURIComponent = Inr,
      axios = sampleAxios,
      utf8Decode = utf8_latin1,
      initPdfjs = Resolves 120 sampleEngine,
      extractRawText = (\<lambda>buffer. Inr ''text of the document'')\<rparr>"

definition slowPlatform :: platform where
  \<comment> \<open>the same platform, with an \<open>initPdfjs()\<close> that takes seven seconds\<close>
  "slowPlatform = samplePlatform\<lparr>initPdfjs := Resolves 7000 sampleEngine\<rparr>"

definition vndPdfResponse :: axios_response where
  \<comment> \<open>a response whose content type carries both \<open>application/vnd\<close> and \<open>pdf\<close>\<close>
  "vndPdfResponse =
     \<lparr>responseUrl = Some ''https://files.example/files/'', configUrl = None,
      headers = Some [''content-type'' \<mapsto> ''application/vnd.foo+pdf''],
      data = asciiBytes ''%PDF-1.7''\<rparr>"

definition wordResponse :: axios_response where
  \<comment> \<open>a redirected download: the final URL ends in \<open>/\<close>, the content type is that of Word\<close>
  "wordResponse =
     \<lparr>responseUrl = Some ''https://files.example/files/'', configUrl = None,
      headers = Some [''content-type'' \<mapsto> ''application/msword''],
      data = asciiBytes ''PK''\<rparr>"

definition sampleItems :: "nat \<Rightarrow> string list" where
  \<comment> \<open>the text items of the pages of \<^const>\<open>sampleDoc\<close>\<close>
  "sampleItems i =
     (if i = 1 then [''Annual'', ''report''] else if i = 2 then [] else [''The end''])"

section \<open>Facts about the string methods\<close>

lemma split_js_nonempty: "split_js d s \<noteq> []"
  by (induction s) (auto split: list.splits)

lemma split_js_no_sep: "d \<notin> set s \<Longrightarrow> split_js d s = [s]"
  by (induction s) auto

lemma split_js_append:
  "\<exists>xs. xs \<noteq> [] \<and> split_js d (a @ d # b) = xs @ split_js d b"
proof (induction a)
  case Nil
  have "split_js d ([] @ d # b) = [[]] @ split_js d b" by simp
  then show ?case by blast
next
  case (Cons c a)
  then obtain xs where xs: "xs \<noteq> []" "split_js d (a @ d # b) = xs @ split_js d b" by blast
  show ?case
  proof (cases "c = d")
    case True
    with xs have "split_js d ((c # a) @ d # b) = ([] # xs) @ split_js d b" by simp
    then show ?thesis by blast
  next
    case False
    from xs obtain y ys where y: "xs = y # ys" by (cases xs) auto
    with xs False have "split_js d ((c # a) @ d # b) = ((c # y) # ys) @ split_js d b" by simp
    then show ?thesis by blast
  qed
qed

lemma last_split_js_append:
  "last (split_js d (a @ d # b)) = last (split_js d b)"
proof -
  obtain xs where "split_js d (a @ d # b) = xs @ split_js d b"
    using split_js_append by blast
  then show ?thesis by (simp add: split_js_nonempty)
qed

lemma popOrEmpty_split_no_sep: "d \<notin> set s \<Longrightarrow> popOrEmpty (split_js d s) = s"
  by (simp add: popOrEmpty_def pop_def orElse_def split_js_no_sep)

lemma popOrEmpty_split_last:
  "d \<notin> set b \<Longrightarrow> popOrEmpty (split_js d (a @ d # b)) = b"
  by (simp add: popOrEmpty_def pop_def orElse_def split_js_nonempty last_split_js_append
      split_js_no_sep)

lemma startsWith_iff: "startsWith s n \<longleftrightarrow> (\<exists>b. s = n @ b)"
  by (induction s n rule: startsWith.induct) auto

lemma includes_js_iff: "includes_js s n \<longleftrightarrow> (\<exists>a b. s = a @ n @ b)"
proof (induction s)
  case Nil
  then show ?case by auto
next
  case (Cons c cs)
  show ?case
  proof
    assume "includes_js (c # cs) n"
    then consider "startsWith (c # cs) n" | "includes_js cs n" by auto
    then show "\<exists>a b. c # cs = a @ n @ b"
    proof cases
      case 1
      then obtain b where "c # cs = n @ b" by (auto simp: startsWith_iff)
      then have "c # cs = [] @ n @ b" by simp
      then show ?thesis by blast
    next
      case 2
      then obtain a b where "cs = a @ n @ b" using Cons.IH by auto
      then have "c # cs = (c # a) @ n @ b" by simp
      then show ?thesis by blast
    qed
  next
    assume "\<exists>a b. c # cs = a @ n @ b"
    then obtain a b where ab: "c # cs = a @ n @ b" by auto
    show "includes_js (c # cs) n"
    proof (cases a)
      case Nil
      with ab have "startsWith (c # cs) n" by (auto simp: startsWith_iff)
      then show ?thesis by simp
    next
      case (Cons x xs)
      with ab have "cs = xs @ n @ b" by simp
      then have "includes_js cs n" using Cons.IH by blast
      then show ?thesis by simp
    qed
  qed
qed

lemma stripNonAlnum_trim: "stripNonAlnum (trim s) = stripNonAlnum s"
proof -
  have a: "filter isLowerAlnum (dropWhile isWhiteSpace t) = filter isLowerAlnum t" for t
    by (induction t) (auto simp: isLowerAlnum_def isWhiteSpace_def Let_def)
  have "filter isLowerAlnum (rev (dropWhile isWhiteSpace (rev (dropWhile isWhiteSpace s))))
        = rev (filter isLowerAlnum (dropWhile isWhiteSpace (rev (dropWhile isWhiteSpace s))))"
    by (simp add: rev_filter)
  also have "\<dots> = rev (filter isLowerAlnum (rev (dropWhile isWhiteSpace s)))"
    by (simp only: a)
  also have "\<dots> = filter isLowerAlnum (dropWhile isWhiteSpace s)"
    by (simp add: rev_filter)
  also have "\<dots> = filter isLowerAlnum s" by (rule a)
  finally show ?thesis by (simp add: stripNonAlnum_def trim_def)
qed

lemma extOfFilename_dotted:
  "CHR ''.'' \<notin> set e \<Longrightarrow> extOfFilename (stem @ CHR ''.'' # e) = stripNonAlnum (toLowerCase e)"
  by (simp add: extOfFilename_def popOrEmpty_split_last stripNonAlnum_trim)

lemma extOfFilename_undotted:
  "CHR ''.'' \<notin> set f \<Longrightarrow> extOfFilename f = stripNonAlnum (toLowerCase f)"
  by (simp add: extOfFilename_def popOrEmpty_split_no_sep stripNonAlnum_trim)

lemma toLowerCase_length: "length (toLowerCase e) = length e"
  by (simp add: toLowerCase_def)

lemma lower_exp: "toLowerCase ''exp'' = ''exp''" by code_simp

lemma lower_fail: "toLowerCase ''fail'' = ''fail''" by code_simp

lemma lower_expired: "toLowerCase ''expired'' = ''expired''" by code_simp

lemma startsWithCI_iff:
  "startsWithCI s p \<longleftrightarrow> (\<exists>e r. s = e @ r \<and> toLowerCase e = toLowerCase p)"
proof (induction s p rule: startsWithCI.induct)
  case (1 s)
  show ?case by (simp add: toLowerCase_def)
next
  case (2 p ps)
  show ?case by (simp add: toLowerCase_def)
next
  case (3 c cs p ps)
  show ?case
  proof
    assume "startsWithCI (c # cs) (p # ps)"
    then have c: "toLowerChar c = toLowerChar p" and "startsWithCI cs ps" by auto
    then obtain e r where "cs = e @ r" "toLowerCase e = toLowerCase ps" using 3 by auto
    then have "c # cs = (c # e) @ r \<and> toLowerCase (c # e) = toLowerCase (p # ps)"
      using c by (simp add: toLowerCase_def)
    then show "\<exists>e r. c # cs = e @ r \<and> toLowerCase e = toLowerCase (p # ps)" by blast
  next
    assume "\<exists>e r. c # cs = e @ r \<and> toLowerCase e = toLowerCase (p # ps)"
    then obtain e r where er: "c # cs = e @ r" "toLowerCase e = toLowerCase (p # ps)" by blast
    then obtain e' where e: "e = c # e'" by (cases e) (auto simp: toLowerCase_def)
    with er have "cs = e' @ r" "toLowerCase e' = toLowerCase ps" "toLowerChar c = toLowerChar p"
      by (auto simp: toLowerCase_def)
    then show "startsWithCI (c # cs) (p # ps)" using 3 by auto
  qed
qed

lemma afterExp_iff:
  "afterExp s \<longleftrightarrow>
     (\<exists>mid f post. s = mid @ f @ post \<and> (\<forall>c \<in> set mid. \<not> isLineBreak c)
        \<and> (toLowerCase f = ''fail'' \<or> toLowerCase f = ''expired''))"
  (is "_ \<longleftrightarrow> ?R s")
proof (induction s)
  case Nil
  show ?case by (auto simp: toLowerCase_def)
next
  case (Cons c cs)
  have here: "startsWithCI (c # cs) ''fail'' \<or> startsWithCI (c # cs) ''expired'' \<longleftrightarrow>
      (\<exists>f post. c # cs = f @ post \<and> (toLowerCase f = ''fail'' \<or> toLowerCase f = ''expired''))"
    unfolding startsWithCI_iff lower_fail lower_expired by blast
  show ?case
  proof
    assume "afterExp (c # cs)"
    then consider "startsWithCI (c # cs) ''fail'' \<or> startsWithCI (c # cs) ''expired''"
      | "\<not> isLineBreak c" "afterExp cs" by auto
    then show "?R (c # cs)"
    proof cases
      case 1
      then obtain f post where "c # cs = [] @ f @ post"
        "toLowerCase f = ''fail'' \<or> toLowerCase f = ''expired''" using here by auto
      then show ?thesis by (metis empty_iff list.set(1))
    next
      case 2
      then obtain mid f post where m: "cs = mid @ f @ post" "\<forall>c \<in> set mid. \<not> isLineBreak c"
        "toLowerCase f = ''fail'' \<or> toLowerCase f = ''expired''" using Cons.IH by auto
      then have "c # cs = (c # mid) @ f @ post" "\<forall>x \<in> set (c # mid). \<not> isLineBreak x"
        using 2 by auto
      with m(3) show ?thesis by blast
    qed
  next
    assume "?R (c # cs)"
    then obtain mid f post where m: "c # cs = mid @ f @ post" "\<forall>c \<in> set mid. \<not> isLineBreak c"
        "toLowerCase f = ''fail'' \<or> toLowerCase f = ''expired''" by blast
    show "afterExp (c # cs)"
    proof (cases mid)
      case Nil
      with m have "startsWithCI (c # cs) ''fail'' \<or> startsWithCI (c # cs) ''expired''"
        using here by auto
      then show ?thesis by auto
    next
      case (Cons x xs)
      with m have "cs = xs @ f @ post" "\<forall>c \<in> set xs. \<not> isLineBreak c" "\<not> isLineBreak c"
        by auto
      with m(3) have "afterExp cs" using Cons.IH by blast
      with \<open>\<not> isLineBreak c\<close> show ?thesis by simp
    qed
  qed
qed

lemma expPatternTest_iff:
  "expPatternTest s \<longleftrightarrow>
     (\<exists>pre e mid f post. s = pre @ e @ mid @ f @ post \<and> toLowerCase e = ''exp''
        \<and> (\<forall>c \<in> set mid. \<not> isLineBreak c)
        \<and> (toLowerCase f = ''fail'' \<or> toLowerCase f = ''expired''))"
  (is "_ \<longleftrightarrow> ?R s")
proof (induction s)
  case Nil
  show ?case by (auto simp: toLowerCase_def)
next
  case (Cons c cs)
  have here: "startsWithCI (c # cs) ''exp'' \<and> afterExp (drop 3 (c # cs)) \<longleftrightarrow>
      (\<exists>e mid f post. c # cs = e @ mid @ f @ post \<and> toLowerCase e = ''exp''
        \<and> (\<forall>c \<in> set mid. \<not> isLineBreak c)
        \<and> (toLowerCase f = ''fail'' \<or> toLowerCase f = ''expired''))" (is "?L \<longleftrightarrow> ?H")
  proof
    assume ?L
    then obtain e r where er: "c # cs = e @ r" "toLowerCase e = ''exp''"
      unfolding startsWithCI_iff lower_exp by blast
    then have "length e = 3" using toLowerCase_length [of e] by simp
    with er have "drop 3 (c # cs) = r" by (metis append_eq_conv_conj)
    with \<open>?L\<close> have "afterExp r" by simp
    then obtain mid f post where "r = mid @ f @ post" "\<forall>c \<in> set mid. \<not> isLineBreak c"
        "toLowerCase f = ''fail'' \<or> toLowerCase f = ''expired''"
      unfolding afterExp_iff by blast
    with er show ?H by blast
  next
    assume ?H
    then obtain e mid f post where h: "c # cs = e @ mid @ f @ post" "toLowerCase e = ''exp''"
        "\<forall>c \<in> set mid. \<not> isLineBreak c"
        "toLowerCase f = ''fail'' \<or> toLowerCase f = ''expired''" by blast
    then have "length e = 3" using toLowerCase_length [of e] by simp
    with h have d: "drop 3 (c # cs) = mid @ f @ post" by (metis append_eq_conv_conj)
    have "afterExp (mid @ f @ post)" unfolding afterExp_iff using h by blast
    moreover have "startsWithCI (c # cs) ''exp''"
      unfolding startsWithCI_iff lower_exp using h by blast
    ultimately show ?L using d by simp
  qed
  show ?case
  proof
    assume "expPatternTest (c # cs)"
    then consider "startsWithCI (c # cs) ''exp'' \<and> afterExp (drop 3 (c # cs))"
      | "expPatternTest cs" by auto
    then show "?R (c # cs)"
    proof cases
      case 1
      then obtain e mid f post where "c # cs = [] @ e @ mid @ f @ post" "toLowerCase e = ''exp''"
        "\<forall>c \<in> set mid. \<not> isLineBreak c"
        "toLowerCase f = ''fail'' \<or> toLowerCase f = ''expired''" using here by auto
      then show ?thesis by blast
    next
      case 2
      then obtain pre e mid f post where "cs = pre @ e @ mid @ f @ post" "toLowerCase e = ''exp''"
        "\<forall>c \<in> set mid. \<not> isLineBreak c"
        "toLowerCase f = ''fail'' \<or> toLowerCase f = ''expired''" using Cons.IH by blast
      then have "c # cs = (c # pre) @ e @ mid @ f @ post \<and> toLowerCase e = ''exp''
        \<and> (\<forall>c \<in> set mid. \<not> isLineBreak c)
        \<and> (toLowerCase f = ''fail'' \<or> toLowerCase f = ''expired'')" by simp
      then show ?thesis by blast
    qed
  next
    assume "?R (c # cs)"
    then obtain pre e mid f post where h: "c # cs = pre @ e @ mid @ f @ post"
        "toLowerCase e = ''exp''" "\<forall>c \<in> set mid. \<not> isLineBreak c"
        "toLowerCase f = ''fail'' \<or> toLowerCase f = ''expired''" by blast
    show "expPatternTest (c # cs)"
    proof (cases pre)
      case Nil
      with h have "c # cs = e @ mid @ f @ post" by simp
      with h(2,3,4) have ?H by blast
      then have ?L using here by blast
      then show ?thesis by simp
    next
      case (Cons x xs)
      with h have "cs = xs @ e @ mid @ f @ post" by simp
      with h have "expPatternTest cs" using Cons.IH by blast
      then show ?thesis by simp
    qed
  qed
qed

section \<open>Facts about \<open>extractPdf\<close>\<close>

lemma pdfLoop_pages:
  assumes "\<forall>i. lo \<le> i \<and> i \<le> numPages doc \<longrightarrow> getPage doc i = Inr (items i)"
  shows "pdfLoop doc lo acc =
           Inr (acc @ concat (map (\<lambda>i. join '' '' (items i) @ [CHR 0x0A]) [lo..<numPages doc + 1]))"
  using assms
proof (induction doc lo acc rule: pdfLoop.induct)
  case (1 doc i acc)
  show ?case
  proof (cases "i \<le> numPages doc")
    case True
    then have page: "getPage doc i = Inr (items i)" using "1.prems" by simp
    have rest: "\<forall>k. i + 1 \<le> k \<and> k \<le> numPages doc \<longrightarrow> getPage doc k = Inr (items k)"
      using "1.prems" by simp
    have range: "[i..<numPages doc + 1] = i # [i + 1..<numPages doc + 1]"
      using True by (simp add: upt_conv_Cons)
    have "pdfLoop doc i acc = pdfLoop doc (i + 1) (acc @ join '' '' (items i) @ [CHR 0x0A])"
      using True page by (subst pdfLoop.simps) simp
    also have "\<dots> = Inr ((acc @ join '' '' (items i) @ [CHR 0x0A]) @
                 concat (map (\<lambda>i. join '' '' (items i) @ [CHR 0x0A]) [i + 1..<numPages doc + 1]))"
      using "1.IH" [OF True page rest] .
    finally show ?thesis by (subst range) (simp del: upt_Suc)
  next
    case False
    then show ?thesis by (subst pdfLoop.simps) simp
  qed
qed

lemma upt_1_4: "[1..<3 + 1] = [1, 2, 3 :: nat]"
  by code_simp

section \<open>Facts about the handler\<close>

lemma finalUrlOf_nonempty: "u \<noteq> [] \<Longrightarrow> finalUrlOf r u \<noteq> []"
  by (simp add: finalUrlOf_def orElse_def)

lemma handler_missing:
  "strOf q = [] \<Longrightarrow>
   extractHandler w st q =
     \<lparr>out_state = st, out_response = Json 400 [(''error'', JStr ''Missing URL parameter'')],
      out_fetches = []\<rparr>"
  by (simp add: extractHandler_def)

lemma handler_invalid:
  "strOf q \<noteq> [] \<Longrightarrow> urlPathname w (strOf q) = Inl m \<Longrightarrow>
   extractHandler w st q =
     \<lparr>out_state = st,
      out_response = Json 400 [(''error'', JStr ''Invalid URL parameter''), (''message'', JStr m)],
      out_fetches = []\<rparr>"
  by (simp add: extractHandler_def)

lemma handler_undecodable:
  "strOf q \<noteq> [] \<Longrightarrow> urlPathname w (strOf q) = Inr p \<Longrightarrow>
   nameAndExt (decodeURIComponent w) p = Inl m \<Longrightarrow>
   extractHandler w st q =
     \<lparr>out_state = st, out_response = catchBlock w (thrown m), out_fetches = []\<rparr>"
  by (simp add: extractHandler_def)

lemma handler_rejected:
  "strOf q \<noteq> [] \<Longrightarrow> urlPathname w (strOf q) = Inr p \<Longrightarrow>
   nameAndExt (decodeURIComponent w) p = Inr fe \<Longrightarrow>
   axios w (requestConfig (strOf q)) = Rejected err \<Longrightarrow>
   extractHandler w st q =
     \<lparr>out_state = st, out_response = catchBlock w err, out_fetches = [requestConfig (strOf q)]\<rparr>"
  by (simp add: extractHandler_def)

lemma handler_resolved:
  "strOf q \<noteq> [] \<Longrightarrow> urlPathname w (strOf q) = Inr p \<Longrightarrow>
   nameAndExt (decodeURIComponent w) p = Inr fe \<Longrightarrow>
   axios w (requestConfig (strOf q)) = Resolved r \<Longrightarrow>
   extractHandler w st q =
     \<lparr>out_state = fst (dispatch w st (detect w fe (strOf q) r) (contentTypeOf (headers r))
                          (finalUrlOf r (strOf q)) (data r)),
      out_response = snd (dispatch w st (detect w fe (strOf q) r) (contentTypeOf (headers r))
                          (finalUrlOf r (strOf q)) (data r)),
      out_fetches = [requestConfig (strOf q)]\<rparr>"
  by (simp add: extractHandler_def Let_def)

lemma handler_detectedExtension:
  assumes "strOf q \<noteq> []" and "urlPathname w (strOf q) = Inr p"
    and "nameAndExt (decodeURIComponent w) p = Inr fe"
    and "axios w (requestConfig (strOf q)) = Resolved r"
  shows "detectedExtension w (strOf q) r = Inr (snd (detect w fe (strOf q) r))"
  using assms by (simp add: detectedExtension_def)

lemma out_fetches_cases:
  "out_fetches (extractHandler w st q) = [] \<or>
   out_fetches (extractHandler w st q) = [requestConfig (strOf q)]"
  by (simp add: extractHandler_def Let_def split: sum.splits axios_outcome.splits)

lemma upstreamError_expired:
  "isInvalidJwt (up_status up) (bodyPreview w (up_data up)) \<Longrightarrow>
   statusOf (upstreamError w up msg) = 401
   \<and> field (upstreamError w up msg) ''suggestion''
       = Some (JStr ''Regenerate signed URL or refresh token'')
   \<and> field (upstreamError w up msg) ''upstreamBodyPreview''
       = Some (jsOpt (bodyPreview w (up_data up)))"
  by (simp add: upstreamError_def Let_def)

lemma upstreamError_other:
  "\<not> isInvalidJwt (up_status up) (bodyPreview w (up_data up)) \<Longrightarrow>
   statusOf (upstreamError w up msg) = 502
   \<and> field (upstreamError w up msg) ''error'' = Some (JStr ''Upstream fetch failed'')
   \<and> field (upstreamError w up msg) ''suggestion'' = None
   \<and> field (upstreamError w up msg) ''upstreamBodyPreview''
       = Some (jsOpt (bodyPreview w (up_data up)))"
  by (simp add: upstreamError_def Let_def)

lemma isInvalidJwt_iff:
  "isInvalidJwt status pv \<longleftrightarrow>
     status = 400
     \<and> ((\<exists>a b. toLowerCase (strOf pv) = a @ ''invalidjwt'' @ b)
        \<or> (\<exists>a b. toLowerCase (strOf pv) = a @ (CHR 0x22 # ''exp'' @ [CHR 0x22]) @ b)
        \<or> (\<exists>pre e mid f post.
              strOf pv = pre @ e @ mid @ f @ post \<and> toLowerCase e = ''exp''
              \<and> (\<forall>c \<in> set mid. of_char c \<noteq> (10::nat) \<and> of_char c \<noteq> (13::nat))
              \<and> (toLowerCase f = ''fail'' \<or> toLowerCase f = ''expired'')))"
proof -
  have lb: "(\<forall>c \<in> set mid. of_char c \<noteq> (10::nat) \<and> of_char c \<noteq> (13::nat))
            \<longleftrightarrow> (\<forall>c \<in> set mid. \<not> isLineBreak c)" for mid
    by (simp add: isLineBreak_def)
  show ?thesis
    unfolding isInvalidJwt_def Let_def includes_js_iff expPatternTest_iff lb ..
qed

lemma catchBlock_preview:
  "err_response err = Some up \<Longrightarrow>
   field (catchBlock w err) ''upstreamBodyPreview'' = Some (jsOpt (bodyPreview w (up_data up)))"
  using upstreamError_expired [of up w "err_message err"]
    upstreamError_other [of up w "err_message err"]
  by (cases "isInvalidJwt (up_status up) (bodyPreview w (up_data up))")
     (simp_all add: catchBlock_def)

lemma raceInit_late:
  assumes "\<forall>t lib. r = Resolves t lib \<longrightarrow> initTimeout < t"
  shows "\<exists>m. raceInit r = Inl m"
  using assms by (cases r) (auto simp: raceInit_def)

lemma dispatch_pdf_unready:
  assumes "snd fe = ''pdf''" and "pdfjsLib st = None" and "raceInit (initPdfjs w) = Inl m"
  shows "dispatch w st fe ct fu buffer =
           (st\<lparr>initCalls := initCalls st + 1\<rparr>,
            Json 503 [(''error'', JStr ''PDF handler not ready''), (''message'', JStr m)])"
  using assms by (simp add: dispatch_def ensurePdfjs_def readinessCheck_def Let_def)

lemma dispatch_pdf_init:
  assumes "snd fe = ''pdf''" and "pdfjsLib st = None" and "raceInit (initPdfjs w) = Inr lib"
  shows "dispatch w st fe ct fu buffer =
           (st\<lparr>initCalls := initCalls st + 1, pdfjsLib := Some lib\<rparr>,
            case extractPdf lib buffer of
              Inl m \<Rightarrow> catchBlock w (thrown m)
            | Inr t \<Rightarrow> sendText t)"
  using assms
  by (simp add: dispatch_def ensurePdfjs_def readinessCheck_def Let_def split: sum.splits)

lemma statusOf_after_extraction:
  "statusOf (case e of Inl m \<Rightarrow> catchBlock w (thrown m) | Inr t \<Rightarrow> sendText t) \<in> {200, 500}"
  by (cases e) (simp_all add: catchBlock_def thrown_def sendText_def)

section \<open>Facts about the sample platform\<close>

lemma char_233: "char_of (64 * (unat (0xC3 :: 8 word) - 0xC0) + (unat (0xA9 :: 8 word) - 0x80)) = CHR 0xE9"
  by code_simp

lemma utf8_latin1_step: "utf8_latin1 (0xC3 # 0xA9 # bs) = CHR 0xE9 # utf8_latin1 bs"
proof -
  have "\<not> (0xC3 :: 8 word) < 0x80" "(0x80 :: 8 word) \<le> 0xA9" "(0xA9 :: 8 word) < 0xC0"
    by simp_all
  then show ?thesis using char_233 by (simp del: of_nat_numeral)
qed

lemma utf8_latin1_accented:
  "utf8_latin1 (concat (replicate n [0xC3, 0xA9])) = replicate n (CHR 0xE9)"
proof (induction n)
  case 0
  show ?case by simp
next
  case (Suc n)
  then show ?case by (simp add: utf8_latin1_step del: utf8_latin1.simps)
qed

lemma take_accented: "take 200 accentedBody = concat (replicate 100 [0xC3, 0xA9])"
  by code_simp

lemma accented_decoded: "utf8Decode samplePlatform accentedBody = replicate 101 (CHR 0xE9)"
  by (simp add: samplePlatform_def accentedBody_def utf8_latin1_accented)

lemma gone_reaches_fetch:
  "strOf (Some ''https://files.example/gone.pdf'') \<noteq> []"
  "urlPathname samplePlatform (strOf (Some ''https://files.example/gone.pdf'')) = Inr ''/gone.pdf''"
  "nameAndExt (decodeURIComponent samplePlatform) ''/gone.pdf'' = Inr (''gone.pdf'', ''pdf'')"
  "axios samplePlatform (requestConfig (strOf (Some ''https://files.example/gone.pdf'')))
     = Rejected goneError"
  "err_response goneError = Some goneUpstream"
proof -
  show "strOf (Some ''https://files.example/gone.pdf'') \<noteq> []" by (simp add: strOf_def)
  show "urlPathname samplePlatform (strOf (Some ''https://files.example/gone.pdf''))
          = Inr ''/gone.pdf''"
    by code_simp
  show "nameAndExt (decodeURIComponent samplePlatform) ''/gone.pdf'' = Inr (''gone.pdf'', ''pdf'')"
    by code_simp
  show "axios samplePlatform (requestConfig (strOf (Some ''https://files.example/gone.pdf'')))
     = Rejected goneError"
    by (simp add: samplePlatform_def sampleAxios_def requestConfig_def strOf_def)
  show "err_response goneError = Some goneUpstream"
    by (simp add: goneError_def)
qed

lemma expired_reaches_fetch:
  "strOf (Some ''https://files.example/signed/a.pdf?token=old'') \<noteq> []"
  "urlPathname samplePlatform (strOf (Some ''https://files.example/signed/a.pdf?token=old''))
     = Inr ''/signed/a.pdf''"
  "nameAndExt (decodeURIComponent samplePlatform) ''/signed/a.pdf'' = Inr (''a.pdf'', ''pdf'')"
  "axios samplePlatform (requestConfig (strOf (Some ''https://files.example/signed/a.pdf?token=old'')))
     = Rejected expiredError"
  "err_response expiredError = Some expiredUpstream"
proof -
  show "strOf (Some ''https://files.example/signed/a.pdf?token=old'') \<noteq> []"
    by (simp add: strOf_def)
  show "urlPathname samplePlatform (strOf (Some ''https://files.example/signed/a.pdf?token=old''))
          = Inr ''/signed/a.pdf''"
    by code_simp
  show "nameAndExt (decodeURIComponent samplePlatform) ''/signed/a.pdf'' = Inr (''a.pdf'', ''pdf'')"
    by code_simp
  show "axios samplePlatform
          (requestConfig (strOf (Some ''https://files.example/signed/a.pdf?token=old'')))
        = Rejected expiredError"
    by (simp add: samplePlatform_def sampleAxios_def requestConfig_def strOf_def)
  show "err_response expiredError = Some expiredUpstream"
    by (simp add: expiredError_def)
qed

lemma expiry_reaches_fetch:
  "strOf (Some ''https://files.example/signed/b.pdf?token=old'') \<noteq> []"
  "urlPathname samplePlatform (strOf (Some ''https://files.example/signed/b.pdf?token=old''))
     = Inr ''/signed/b.pdf''"
  "nameAndExt (decodeURIComponent samplePlatform) ''/signed/b.pdf'' = Inr (''b.pdf'', ''pdf'')"
  "axios samplePlatform (requestConfig (strOf (Some ''https://files.example/signed/b.pdf?token=old'')))
     = Rejected expiryError"
  "err_response expiryError = Some expiryUpstream"
proof -
  show "strOf (Some ''https://files.example/signed/b.pdf?token=old'') \<noteq> []"
    by (simp add: strOf_def)
  show "urlPathname samplePlatform (strOf (Some ''https://files.example/signed/b.pdf?token=old''))
          = Inr ''/signed/b.pdf''"
    by code_simp
  show "nameAndExt (decodeURIComponent samplePlatform) ''/signed/b.pdf'' = Inr (''b.pdf'', ''pdf'')"
    by code_simp
  show "axios samplePlatform
          (requestConfig (strOf (Some ''https://files.example/signed/b.pdf?token=old'')))
        = Rejected expiryError"
    by (simp add: samplePlatform_def sampleAxios_def requestConfig_def strOf_def)
  show "err_response expiryError = Some expiryUpstream"
    by (simp add: expiryError_def)
qed

lemma twoLine_reaches_fetch:
  "strOf (Some ''https://files.example/signed/c.pdf?token=old'') \<noteq> []"
  "urlPathname samplePlatform (strOf (Some ''https://files.example/signed/c.pdf?token=old''))
     = Inr ''/signed/c.pdf''"
  "nameAndExt (decodeURIComponent samplePlatform) ''/signed/c.pdf'' = Inr (''c.pdf'', ''pdf'')"
  "axios samplePlatform (requestConfig (strOf (Some ''https://files.example/signed/c.pdf?token=old'')))
     = Rejected twoLineError"
  "err_response twoLineError = Some twoLineUpstream"
proof -
  show "strOf (Some ''https://files.example/signed/c.pdf?token=old'') \<noteq> []"
    by (simp add: strOf_def)
  show "urlPathname samplePlatform (strOf (Some ''https://files.example/signed/c.pdf?token=old''))
          = Inr ''/signed/c.pdf''"
    by code_simp
  show "nameAndExt (decodeURIComponent samplePlatform) ''/signed/c.pdf'' = Inr (''c.pdf'', ''pdf'')"
    by code_simp
  show "axios samplePlatform
          (requestConfig (strOf (Some ''https://files.example/signed/c.pdf?token=old'')))
        = Rejected twoLineError"
    by (simp add: samplePlatform_def sampleAxios_def requestConfig_def strOf_def)
  show "err_response twoLineError = Some twoLineUpstream"
    by (simp add: twoLineError_def)
qed

lemma expiry_preview:
  "strOf (bodyPreview samplePlatform (up_data expiryUpstream)) = ''Token EXPIRY check FAILED''"
  by code_simp

lemma twoLine_preview:
  "strOf (bodyPreview samplePlatform (up_data twoLineUpstream)) = ''exp'' @ [CHR 0x0A] @ ''fail''"
  by code_simp

lemma twoLine_no_match:
  "\<not> isInvalidJwt 400 (bodyPreview samplePlatform (up_data twoLineUpstream))"
  by code_simp

lemma menu_reaches_fetch:
  "strOf (Some ''https://files.example/menu.pdf'') \<noteq> []"
  "urlPathname samplePlatform (strOf (Some ''https://files.example/menu.pdf'')) = Inr ''/menu.pdf''"
  "nameAndExt (decodeURIComponent samplePlatform) ''/menu.pdf'' = Inr (''menu.pdf'', ''pdf'')"
  "axios samplePlatform (requestConfig (strOf (Some ''https://files.example/menu.pdf'')))
     = Rejected forbiddenError"
  "err_response forbiddenError = Some forbiddenUpstream"
proof -
  show "strOf (Some ''https://files.example/menu.pdf'') \<noteq> []" by (simp add: strOf_def)
  show "urlPathname samplePlatform (strOf (Some ''https://files.example/menu.pdf''))
          = Inr ''/menu.pdf''"
    by code_simp
  show "nameAndExt (decodeURIComponent samplePlatform) ''/menu.pdf'' = Inr (''menu.pdf'', ''pdf'')"
    by code_simp
  show "axios samplePlatform (requestConfig (strOf (Some ''https://files.example/menu.pdf'')))
     = Rejected forbiddenError"
    by (simp add: samplePlatform_def sampleAxios_def requestConfig_def strOf_def)
  show "err_response forbiddenError = Some forbiddenUpstream"
    by (simp add: forbiddenError_def)
qed

lemma menu_preview:
  "bodyPreview samplePlatform (up_data forbiddenUpstream) = Some (replicate 100 (CHR 0xE9))"
  by (simp add: bodyPreview_def forbiddenUpstream_def samplePlatform_def take_accented
      utf8_latin1_accented)

section \<open>The claims\<close>

subsection \<open>C1: the extension of a file name\<close>

text \<open>
  C1, the code at a file name without a dot. \<open>'report'.split('.').pop()\<close> is \<open>'report'\<close>: the
  extension of \<open>https://files.example/files/report\<close> is \<open>report\<close>, not the empty string, the
  content type \<open>application/pdf\<close> of the response is never consulted, and the request is
  refused as an unsupported type.
\<close>
theorem undotted_filename_keeps_name_as_extension:
  "extOfFilename ''report'' = ''report''
   \<and> detectedExtension samplePlatform ''https://files.example/files/report''
        (pdfResponse ''https://files.example/files/report'') = Inr ''report''
   \<and> contentTypeOf (headers (pdfResponse ''https://files.example/files/report'')) = ''application/pdf''
   \<and> out_response (extractHandler samplePlatform startupState
        (Some ''https://files.example/files/report''))
      = Json 400
          [(''error'', JStr ''Unsupported file type... Use .pdf or .docx''),
           (''filename'', JStr ''report''),
           (''detectedExtension'', JStr ''report''),
           (''contentType'', JStr ''application/pdf''),
           (''finalUrl'', JStr ''https://files.example/files/report'')]"
proof -
  let ?u = "''https://files.example/files/report''"
  have a: "extOfFilename ''report'' = ''report''" by code_simp
  have b: "detectedExtension samplePlatform ?u (pdfResponse ?u) = Inr ''report''" by code_simp
  have c: "contentTypeOf (headers (pdfResponse ?u)) = ''application/pdf''" by code_simp
  have h1: "strOf (Some ?u) \<noteq> []" by (simp add: strOf_def)
  have h2: "urlPathname samplePlatform (strOf (Some ?u)) = Inr ''/files/report''" by code_simp
  have h3: "nameAndExt (decodeURIComponent samplePlatform) ''/files/report''
            = Inr (''report'', ''report'')" by code_simp
  have h4: "axios samplePlatform (requestConfig (strOf (Some ?u))) = Resolved (pdfResponse ?u)"
    by (simp add: samplePlatform_def sampleAxios_def requestConfig_def strOf_def)
  have d: "detect samplePlatform (''report'', ''report'') (strOf (Some ?u)) (pdfResponse ?u)
           = (''report'', ''report'')" by code_simp
  have f: "finalUrlOf (pdfResponse ?u) (strOf (Some ?u)) = ?u" by code_simp
  have "out_response (extractHandler samplePlatform startupState (Some ?u))
      = Json 400
          [(''error'', JStr ''Unsupported file type... Use .pdf or .docx''),
           (''filename'', JStr ''report''),
           (''detectedExtension'', JStr ''report''),
           (''contentType'', JStr ''application/pdf''),
           (''finalUrl'', JStr ?u)]"
    unfolding handler_resolved [OF h1 h2 h3 h4] d f c by (simp add: dispatch_def)
  with a b c show ?thesis by blast
qed

subsection \<open>C2: upstream errors\<close>

text \<open>
  C2. When the fetch fails with an upstream HTTP response, the handler answers 401 with a
  \<open>suggestion\<close> field exactly when the upstream status is 400 and one of these holds: the
  body preview, lowercased, contains \<open>invalidjwt\<close>; the preview, lowercased, contains the five
  characters \<open>"exp"\<close>; the preview contains \<open>exp\<close> in any mix of cases, then any characters
  other than LF and CR, then \<open>fail\<close> or \<open>expired\<close> in any mix of cases. In every other case it
  answers 502 with the error \<open>Upstream fetch failed\<close>. The condition is written out on the
  strings, not with the functions that test it in the handler.
\<close>
theorem upstream_error_classification:
  assumes "strOf q \<noteq> []"
    and "urlPathname w (strOf q) = Inr p"
    and "nameAndExt (decodeURIComponent w) p = Inr fe"
    and "axios w (requestConfig (strOf q)) = Rejected err"
    and "err_response err = Some up"
  shows "((statusOf (out_response (extractHandler w st q)) = 401
           \<and> field (out_response (extractHandler w st q)) ''suggestion'' \<noteq> None)
          \<longleftrightarrow>
          (up_status up = 400
           \<and> ((\<exists>a b. toLowerCase (strOf (bodyPreview w (up_data up))) = a @ ''invalidjwt'' @ b)
              \<or> (\<exists>a b. toLowerCase (strOf (bodyPreview w (up_data up)))
                         = a @ (CHR 0x22 # ''exp'' @ [CHR 0x22]) @ b)
              \<or> (\<exists>pre e mid f post.
                    strOf (bodyPreview w (up_data up)) = pre @ e @ mid @ f @ post
                    \<and> toLowerCase e = ''exp''
                    \<and> (\<forall>c \<in> set mid. of_char c \<noteq> (10::nat) \<and> of_char c \<noteq> (13::nat))
                    \<and> (toLowerCase f = ''fail'' \<or> toLowerCase f = ''expired'')))))
         \<and>
         ((statusOf (out_response (extractHandler w st q)) = 502
           \<and> field (out_response (extractHandler w st q)) ''error''
               = Some (JStr ''Upstream fetch failed''))
          \<longleftrightarrow>
          \<not> (up_status up = 400
           \<and> ((\<exists>a b. toLowerCase (strOf (bodyPreview w (up_data up))) = a @ ''invalidjwt'' @ b)
              \<or> (\<exists>a b. toLowerCase (strOf (bodyPreview w (up_data up)))
                         = a @ (CHR 0x22 # ''exp'' @ [CHR 0x22]) @ b)
              \<or> (\<exists>pre e mid f post.
                    strOf (bodyPreview w (up_data up)) = pre @ e @ mid @ f @ post
                    \<and> toLowerCase e = ''exp''
                    \<and> (\<forall>c \<in> set mid. of_char c \<noteq> (10::nat) \<and> of_char c \<noteq> (13::nat))
                    \<and> (toLowerCase f = ''fail'' \<or> toLowerCase f = ''expired'')))))"
proof -
  have res: "out_response (extractHandler w st q) = upstreamError w up (err_message err)"
    using handler_rejected [OF assms(1-4)] assms(5) by (simp add: catchBlock_def)
  show ?thesis
  proof (cases "isInvalidJwt (up_status up) (bodyPreview w (up_data up))")
    case True
    from upstreamError_expired [OF True, of "err_message err"] True
    show ?thesis unfolding res isInvalidJwt_iff [symmetric] by simp
  next
    case False
    from upstreamError_other [OF False, of "err_message err"] False
    show ?thesis unfolding res isInvalidJwt_iff [symmetric] by simp
  qed
qed

theorem upstream_error_classification_witness:
  "strOf (Some ''https://files.example/signed/a.pdf?token=old'') \<noteq> []
   \<and> urlPathname samplePlatform (strOf (Some ''https://files.example/signed/a.pdf?token=old''))
       = Inr ''/signed/a.pdf''
   \<and> nameAndExt (decodeURIComponent samplePlatform) ''/signed/a.pdf'' = Inr (''a.pdf'', ''pdf'')
   \<and> axios samplePlatform (requestConfig (strOf (Some ''https://files.example/signed/a.pdf?token=old'')))
       = Rejected expiredError
   \<and> err_response expiredError = Some expiredUpstream
   \<and> statusOf (out_response (extractHandler samplePlatform startupState
         (Some ''https://files.example/signed/a.pdf?token=old''))) = 401
   \<and> field (out_response (extractHandler samplePlatform startupState
         (Some ''https://files.example/signed/a.pdf?token=old''))) ''suggestion'' \<noteq> None
   \<and> up_status expiryUpstream = 400
   \<and> strOf (bodyPreview samplePlatform (up_data expiryUpstream)) = ''Token EXPIRY check FAILED''
   \<and> statusOf (out_response (extractHandler samplePlatform startupState
         (Some ''https://files.example/signed/b.pdf?token=old''))) = 401
   \<and> field (out_response (extractHandler samplePlatform startupState
         (Some ''https://files.example/signed/b.pdf?token=old''))) ''suggestion'' \<noteq> None
   \<and> up_status twoLineUpstream = 400
   \<and> strOf (bodyPreview samplePlatform (up_data twoLineUpstream)) = ''exp'' @ [CHR 0x0A] @ ''fail''
   \<and> statusOf (out_response (extractHandler samplePlatform startupState
         (Some ''https://files.example/signed/c.pdf?token=old''))) = 502
   \<and> up_status goneUpstream = 404
   \<and> statusOf (out_response (extractHandler samplePlatform startupState
         (Some ''https://files.example/gone.pdf''))) = 502
   \<and> field (out_response (extractHandler samplePlatform startupState
         (Some ''https://files.example/gone.pdf''))) ''error'' = Some (JStr ''Upstream fetch failed'')"
proof -
  have a1: "up_status expiredUpstream = 400" by (simp add: expiredUpstream_def)
  have a2: "toLowerCase (strOf (bodyPreview samplePlatform (up_data expiredUpstream)))
            = (CHR ''{'' # CHR 0x22 # ''error'' @ [CHR 0x22, CHR '':'', CHR 0x22])
              @ ''invalidjwt'' @ [CHR 0x22, CHR ''}'']"
    by code_simp
  then have a3: "\<exists>a b. toLowerCase (strOf (bodyPreview samplePlatform (up_data expiredUpstream)))
                   = a @ ''invalidjwt'' @ b"
    by blast
  from upstream_error_classification [OF expired_reaches_fetch, of startupState] a1 a3
  have expired:
    "statusOf (out_response (extractHandler samplePlatform startupState
         (Some ''https://files.example/signed/a.pdf?token=old''))) = 401
     \<and> field (out_response (extractHandler samplePlatform startupState
         (Some ''https://files.example/signed/a.pdf?token=old''))) ''suggestion'' \<noteq> None"
    by blast
  have b1: "up_status expiryUpstream = 400" by (simp add: expiryUpstream_def)
  have b2: "strOf (bodyPreview samplePlatform (up_data expiryUpstream))
            = ''Token '' @ ''EXP'' @ ''IRY check '' @ ''FAIL'' @ ''ED''"
    unfolding expiry_preview by simp
  have b3: "toLowerCase ''EXP'' = ''exp''" "toLowerCase ''FAIL'' = ''fail''" by code_simp+
  have b4: "\<forall>c \<in> set ''IRY check ''. of_char c \<noteq> (10::nat) \<and> of_char c \<noteq> (13::nat)"
    by simp
  from b2 b3 b4
  have b5: "\<exists>pre e mid f post.
              strOf (bodyPreview samplePlatform (up_data expiryUpstream)) = pre @ e @ mid @ f @ post
              \<and> toLowerCase e = ''exp''
              \<and> (\<forall>c \<in> set mid. of_char c \<noteq> (10::nat) \<and> of_char c \<noteq> (13::nat))
              \<and> (toLowerCase f = ''fail'' \<or> toLowerCase f = ''expired'')"
    by blast
  from upstream_error_classification [OF expiry_reaches_fetch, of startupState] b1 b5
  have expiry:
    "statusOf (out_response (extractHandler samplePlatform startupState
         (Some ''https://files.example/signed/b.pdf?token=old''))) = 401
     \<and> field (out_response (extractHandler samplePlatform startupState
         (Some ''https://files.example/signed/b.pdf?token=old''))) ''suggestion'' \<noteq> None"
    by blast
  have c1: "up_status twoLineUpstream = 400" by (simp add: twoLineUpstream_def)
  have c2: "\<not> (up_status twoLineUpstream = 400
           \<and> ((\<exists>a b. toLowerCase (strOf (bodyPreview samplePlatform (up_data twoLineUpstream)))
                      = a @ ''invalidjwt'' @ b)
              \<or> (\<exists>a b. toLowerCase (strOf (bodyPreview samplePlatform (up_data twoLineUpstream)))
                         = a @ (CHR 0x22 # ''exp'' @ [CHR 0x22]) @ b)
              \<or> (\<exists>pre e mid f post.
                    strOf (bodyPreview samplePlatform (up_data twoLineUpstream))
                      = pre @ e @ mid @ f @ post
                    \<and> toLowerCase e = ''exp''
                    \<and> (\<forall>c \<in> set mid. of_char c \<noteq> (10::nat) \<and> of_char c \<noteq> (13::nat))
                    \<and> (toLowerCase f = ''fail'' \<or> toLowerCase f = ''expired''))))"
    using twoLine_no_match unfolding c1 isInvalidJwt_iff by blast
  from upstream_error_classification [OF twoLine_reaches_fetch, of startupState] c2
  have twoLine:
    "statusOf (out_response (extractHandler samplePlatform startupState
         (Some ''https://files.example/signed/c.pdf?token=old''))) = 502"
    by blast
  have g: "up_status goneUpstream = 404" by (simp add: goneUpstream_def)
  then have "up_status goneUpstream \<noteq> 400" by simp
  with upstream_error_classification [OF gone_reaches_fetch, of startupState]
  have gone: "statusOf (out_response (extractHandler samplePlatform startupState
         (Some ''https://files.example/gone.pdf''))) = 502
   \<and> field (out_response (extractHandler samplePlatform startupState
         (Some ''https://files.example/gone.pdf''))) ''error'' = Some (JStr ''Upstream fetch failed'')"
    by blast
  from expired_reaches_fetch expired b1 expiry_preview expiry c1 twoLine_preview twoLine g gone
  show ?thesis by blast
qed

subsection \<open>C3: the text of a PDF\<close>

text \<open>
  C3. When the document loads and each of its pages yields its text items, \<open>extractPdf\<close>
  returns, for the pages 1 to \<open>numPages\<close> in this order, the items of the page joined by one
  space and followed by one line feed, all concatenated. A document of three pages gives
  three such segments, each ended by its line feed, in page order.
\<close>
theorem extractPdf_pages_in_order:
  assumes "lib buffer = Inr doc"
    and "\<forall>i. 1 \<le> i \<and> i \<le> numPages doc \<longrightarrow> getPage doc i = Inr (items i)"
  shows "extractPdf lib buffer =
           Inr (concat (map (\<lambda>i. join '' '' (items i) @ [CHR 0x0A]) [1..<numPages doc + 1]))
         \<and> (numPages doc = 3 \<longrightarrow>
              extractPdf lib buffer =
                Inr (join '' '' (items 1) @ [CHR 0x0A] @ join '' '' (items 2) @ [CHR 0x0A]
                     @ join '' '' (items 3) @ [CHR 0x0A]))"
proof -
  have all: "extractPdf lib buffer =
           Inr (concat (map (\<lambda>i. join '' '' (items i) @ [CHR 0x0A]) [1..<numPages doc + 1]))"
    using assms(1) pdfLoop_pages [OF assms(2), of "[]"] by (simp add: extractPdf_def)
  have "extractPdf lib buffer =
                Inr (join '' '' (items 1) @ [CHR 0x0A] @ join '' '' (items 2) @ [CHR 0x0A]
                     @ join '' '' (items 3) @ [CHR 0x0A])" if "numPages doc = 3"
    unfolding all that upt_1_4 by simp
  with all show ?thesis by blast
qed

theorem extractPdf_pages_in_order_witness:
  "sampleEngine (asciiBytes ''%PDF-1.7'') = Inr sampleDoc
   \<and> numPages sampleDoc = 3
   \<and> getPage sampleDoc 1 = Inr [''Annual'', ''report'']
   \<and> getPage sampleDoc 2 = Inr []
   \<and> getPage sampleDoc 3 = Inr [''The end'']
   \<and> extractPdf sampleEngine (asciiBytes ''%PDF-1.7'')
       = Inr (''Annual report'' @ [CHR 0x0A] @ [CHR 0x0A] @ ''The end'' @ [CHR 0x0A])"
proof -
  have h1: "sampleEngine (asciiBytes ''%PDF-1.7'') = Inr sampleDoc"
    by (simp add: sampleEngine_def asciiBytes_def)
  have h2: "\<forall>i. 1 \<le> i \<and> i \<le> numPages sampleDoc \<longrightarrow> getPage sampleDoc i = Inr (sampleItems i)"
    by (auto simp: sampleDoc_def sampleItems_def)
  have n: "numPages sampleDoc = 3" by (simp add: sampleDoc_def)
  have "extractPdf sampleEngine (asciiBytes ''%PDF-1.7'')
       = Inr (join '' '' (sampleItems 1) @ [CHR 0x0A] @ join '' '' (sampleItems 2) @ [CHR 0x0A]
              @ join '' '' (sampleItems 3) @ [CHR 0x0A])"
    using n
      extractPdf_pages_in_order [of sampleEngine "asciiBytes ''%PDF-1.7''" sampleDoc sampleItems, OF h1 h2]
    by blast
  then have "extractPdf sampleEngine (asciiBytes ''%PDF-1.7'')
       = Inr (''Annual report'' @ [CHR 0x0A] @ [CHR 0x0A] @ ''The end'' @ [CHR 0x0A])"
    by (simp add: sampleItems_def)
  moreover have "getPage sampleDoc 1 = Inr [''Annual'', ''report'']"
    "getPage sampleDoc 2 = Inr []" "getPage sampleDoc 3 = Inr [''The end'']"
    by (simp_all add: sampleDoc_def)
  ultimately show ?thesis using h1 n by blast
qed

subsection \<open>C4: the body is not consulted\<close>

text \<open>
  C4. Two requests whose URLs have the same path, whose final URLs have the same path and
  whose responses carry the same content type are given the same extension, whatever the
  bytes of the two bodies: the body is no input of the detection.
\<close>
theorem extension_independent_of_body:
  assumes "u1 \<noteq> []" and "u2 \<noteq> []"
    and "urlPathname w u1 = urlPathname w u2"
    and "urlPathname w (finalUrlOf r1 u1) = urlPathname w (finalUrlOf r2 u2)"
    and "contentTypeOf (headers r1) = contentTypeOf (headers r2)"
  shows "detectedExtension w u1 r1 = detectedExtension w u2 r2"
proof -
  have "refineName w fe (finalUrlOf r1 u1) = refineName w fe (finalUrlOf r2 u2)" for fe
    using assms(1,2,4) by (simp add: refineName_def finalUrlOf_nonempty)
  then have "detect w fe u1 r1 = detect w fe u2 r2" for fe
    using assms(5) by (simp add: detect_def)
  then show ?thesis
    using assms(3) by (simp add: detectedExtension_def split: sum.splits)
qed

theorem extension_independent_of_body_witness:
  "''https://files.example/files/report.pdf'' \<noteq> []
   \<and> contentTypeOf (headers (pdfResponse ''https://files.example/files/report.pdf''))
       = contentTypeOf (headers ((pdfResponse ''https://files.example/files/report.pdf'')
                                   \<lparr>data := asciiBytes ''PK''\<rparr>))
   \<and> data (pdfResponse ''https://files.example/files/report.pdf'')
       \<noteq> data ((pdfResponse ''https://files.example/files/report.pdf'')\<lparr>data := asciiBytes ''PK''\<rparr>)
   \<and> detectedExtension samplePlatform ''https://files.example/files/report.pdf''
         (pdfResponse ''https://files.example/files/report.pdf'')
       = detectedExtension samplePlatform ''https://files.example/files/report.pdf''
           ((pdfResponse ''https://files.example/files/report.pdf'')\<lparr>data := asciiBytes ''PK''\<rparr>)
   \<and> detectedExtension samplePlatform ''https://files.example/files/report.pdf''
         (pdfResponse ''https://files.example/files/report.pdf'') = Inr ''pdf''"
proof -
  let ?u = "''https://files.example/files/report.pdf''"
  let ?r1 = "pdfResponse ?u"
  let ?r2 = "(pdfResponse ?u)\<lparr>data := asciiBytes ''PK''\<rparr>"
  have h1: "?u \<noteq> []" by simp
  have h3: "urlPathname samplePlatform ?u = urlPathname samplePlatform ?u" by (rule refl)
  have h4: "urlPathname samplePlatform (finalUrlOf ?r1 ?u)
            = urlPathname samplePlatform (finalUrlOf ?r2 ?u)"
    by (simp add: finalUrlOf_def)
  have h5: "contentTypeOf (headers ?r1) = contentTypeOf (headers ?r2)" by simp
  have d: "data ?r1 \<noteq> data ?r2" by (simp add: pdfResponse_def asciiBytes_def)
  have v: "detectedExtension samplePlatform ?u ?r1 = Inr ''pdf''" by code_simp
  from extension_independent_of_body [OF h1 h1 h3 h4 h5] h1 h5 d v show ?thesis by blast
qed

subsection \<open>C5: the content-type fallback\<close>

text \<open>
  C5. When the extension obtained from the URL paths is empty, the content type decides by
  substring: \<open>pdf\<close> gives \<open>pdf\<close>; otherwise one of \<open>officedocument\<close>, \<open>word\<close>, \<open>msword\<close>,
  \<open>application/vnd\<close> gives \<open>docx\<close>; otherwise the extension stays empty. A missing header is
  the empty content type.
\<close>
theorem content_type_fallback:
  assumes "snd (refineName w fe (finalUrlOf r u)) = []"
  shows "snd (detect w fe u r) =
           (if includes_js (contentTypeOf (headers r)) ''pdf'' then ''pdf''
            else if includes_js (contentTypeOf (headers r)) ''officedocument''
                    \<or> includes_js (contentTypeOf (headers r)) ''word''
                    \<or> includes_js (contentTypeOf (headers r)) ''msword''
                    \<or> includes_js (contentTypeOf (headers r)) ''application/vnd''
                 then ''docx''
                 else [])"
  using assms by (simp add: detect_def inferExt_def Let_def)

theorem content_type_fallback_witness:
  "snd (refineName samplePlatform ([], []) (finalUrlOf wordResponse ''https://files.example/files/'')) = []
   \<and> snd (detect samplePlatform ([], []) ''https://files.example/files/'' wordResponse) = ''docx''"
proof -
  have h: "snd (refineName samplePlatform ([], [])
                 (finalUrlOf wordResponse ''https://files.example/files/'')) = []"
    by code_simp
  have ct: "contentTypeOf (headers wordResponse) = ''application/msword''"
    by code_simp
  have no_pdf: "\<not> includes_js ''application/msword'' ''pdf''"
    by code_simp
  have word: "includes_js ''application/msword'' ''word''"
    by code_simp
  show ?thesis
    using h content_type_fallback [OF h] by (simp only: ct no_pdf word) simp
qed

subsection \<open>C6: the PDF engine is not ready\<close>

text \<open>
  C6. A request detected as \<open>pdf\<close> that finds \<open>pdfjsLib\<close> unset calls \<open>initPdfjs()\<close> itself and
  waits for it against a timer of 5000 ms. When the call does not resolve within that time
  (it resolves later, rejects, or never settles) the answer is 503 with the error
  \<open>PDF handler not ready\<close> and a message, which is not the answer of a failed extraction;
  when it resolves earlier the answer is not 503.
\<close>
theorem pdf_engine_not_ready:
  assumes "strOf q \<noteq> []"
    and "urlPathname w (strOf q) = Inr p"
    and "nameAndExt (decodeURIComponent w) p = Inr fe"
    and "axios w (requestConfig (strOf q)) = Resolved r"
    and "snd (detect w fe (strOf q) r) = ''pdf''"
    and "pdfjsLib st = None"
  shows "initCalls (out_state (extractHandler w st q)) = initCalls st + 1
         \<and> initTimeout = 5000
         \<and> ((\<forall>t lib. initPdfjs w = Resolves t lib \<longrightarrow> initTimeout < t) \<longrightarrow>
              (\<exists>m. out_response (extractHandler w st q)
                     = Json 503 [(''error'', JStr ''PDF handler not ready''), (''message'', JStr m)])
              \<and> (\<forall>m. out_response (extractHandler w st q) \<noteq> catchBlock w (thrown m)))
         \<and> ((\<exists>t lib. initPdfjs w = Resolves t lib \<and> t < initTimeout) \<longrightarrow>
              statusOf (out_response (extractHandler w st q)) \<noteq> 503)"
proof -
  let ?d = "dispatch w st (detect w fe (strOf q) r) (contentTypeOf (headers r))
              (finalUrlOf r (strOf q)) (data r)"
  have res: "out_response (extractHandler w st q) = snd ?d"
    and state: "out_state (extractHandler w st q) = fst ?d"
    using handler_resolved [OF assms(1-4)] by simp_all
  have calls: "initCalls (fst ?d) = initCalls st + 1"
  proof (cases "raceInit (initPdfjs w)")
    case (Inl m)
    show ?thesis by (simp add: dispatch_pdf_unready [OF assms(5,6) Inl])
  next
    case (Inr lib)
    show ?thesis by (simp add: dispatch_pdf_init [OF assms(5,6) Inr])
  qed
  have late: "(\<exists>m. snd ?d = Json 503 [(''error'', JStr ''PDF handler not ready''), (''message'', JStr m)])
              \<and> (\<forall>m. snd ?d \<noteq> catchBlock w (thrown m))"
    if "\<forall>t lib. initPdfjs w = Resolves t lib \<longrightarrow> initTimeout < t"
  proof -
    from that obtain m where "raceInit (initPdfjs w) = Inl m"
      using raceInit_late [of "initPdfjs w"] by blast
    then show ?thesis
      by (simp add: dispatch_pdf_unready [OF assms(5,6)] catchBlock_def thrown_def)
  qed
  have early: "statusOf (snd ?d) \<noteq> 503"
    if "\<exists>t lib. initPdfjs w = Resolves t lib \<and> t < initTimeout"
  proof -
    from that obtain t lib where "initPdfjs w = Resolves t lib" "t < initTimeout" by blast
    then have "raceInit (initPdfjs w) = Inr lib" by (simp add: raceInit_def)
    from dispatch_pdf_init [OF assms(5,6) this]
    have "statusOf (snd ?d) \<in> {200, 500}" using statusOf_after_extraction by simp
    then show ?thesis by auto
  qed
  show ?thesis
    unfolding res state using calls late early by (simp add: initTimeout_def)
qed

theorem pdf_engine_not_ready_witness:
  "strOf (Some ''https://files.example/files/report.pdf'') \<noteq> []
   \<and> urlPathname slowPlatform (strOf (Some ''https://files.example/files/report.pdf''))
       = Inr ''/files/report.pdf''
   \<and> nameAndExt (decodeURIComponent slowPlatform) ''/files/report.pdf''
       = Inr (''report.pdf'', ''pdf'')
   \<and> axios slowPlatform (requestConfig (strOf (Some ''https://files.example/files/report.pdf'')))
       = Resolved (pdfResponse ''https://files.example/files/report.pdf'')
   \<and> snd (detect slowPlatform (''report.pdf'', ''pdf'')
            (strOf (Some ''https://files.example/files/report.pdf''))
            (pdfResponse ''https://files.example/files/report.pdf'')) = ''pdf''
   \<and> pdfjsLib startupState = None
   \<and> initPdfjs slowPlatform = Resolves 7000 sampleEngine
   \<and> statusOf (out_response (extractHandler slowPlatform startupState
         (Some ''https://files.example/files/report.pdf''))) = 503
   \<and> field (out_response (extractHandler slowPlatform startupState
         (Some ''https://files.example/files/report.pdf''))) ''error''
       = Some (JStr ''PDF handler not ready'')
   \<and> initCalls (out_state (extractHandler slowPlatform startupState
         (Some ''https://files.example/files/report.pdf''))) = initCalls startupState + 1"
proof -
  let ?u = "''https://files.example/files/report.pdf''"
  have h1: "strOf (Some ?u) \<noteq> []" by (simp add: strOf_def)
  have h2: "urlPathname slowPlatform (strOf (Some ?u)) = Inr ''/files/report.pdf''"
    by code_simp
  have h3: "nameAndExt (decodeURIComponent slowPlatform) ''/files/report.pdf''
            = Inr (''report.pdf'', ''pdf'')"
    by code_simp
  have h4: "axios slowPlatform (requestConfig (strOf (Some ?u))) = Resolved (pdfResponse ?u)"
    by (simp add: slowPlatform_def samplePlatform_def sampleAxios_def requestConfig_def strOf_def)
  have h5: "snd (detect slowPlatform (''report.pdf'', ''pdf'') (strOf (Some ?u)) (pdfResponse ?u))
            = ''pdf''"
    by code_simp
  have h6: "pdfjsLib startupState = None" by (simp add: startupState_def)
  have slow: "initPdfjs slowPlatform = Resolves 7000 sampleEngine"
    by (simp add: slowPlatform_def)
  then have late: "\<forall>t lib. initPdfjs slowPlatform = Resolves t lib \<longrightarrow> initTimeout < t"
    by (simp add: initTimeout_def)
  from pdf_engine_not_ready [OF h1 h2 h3 h4 h5 h6] late
  obtain m where
    "out_response (extractHandler slowPlatform startupState (Some ?u))
       = Json 503 [(''error'', JStr ''PDF handler not ready''), (''message'', JStr m)]"
    "initCalls (out_state (extractHandler slowPlatform startupState (Some ?u)))
       = initCalls startupState + 1"
    by blast
  then have "statusOf (out_response (extractHandler slowPlatform startupState (Some ?u))) = 503
        \<and> field (out_response (extractHandler slowPlatform startupState (Some ?u))) ''error''
            = Some (JStr ''PDF handler not ready'')
        \<and> initCalls (out_state (extractHandler slowPlatform startupState (Some ?u)))
            = initCalls startupState + 1"
    by simp
  with h1 h2 h3 h4 h5 h6 slow show ?thesis by blast
qed

subsection \<open>C7: the \<open>url\<close> parameter\<close>

text \<open>
  C7, amended. A \<open>url\<close> parameter that is absent or empty is answered 400 with the body
  \<open>{error: "Missing URL parameter"}\<close>. A non-empty \<open>url\<close> that \<open>new URL\<close> rejects is answered 400
  with the error \<open>Invalid URL parameter\<close> and the message of the rejection, never 500. Stated
  for every present parameter the claim fails at the empty string, which is answered as a
  missing parameter: the last theorem of this subsection. A string that \<open>new URL\<close> accepts is
  outside this statement, whatever \<open>decodeURIComponent\<close> makes of its last path segment at
  line 88 (lemma \<open>handler_undecodable\<close>).
\<close>
theorem url_parameter_validation:
  "(q = None \<or> q = Some [] \<longrightarrow>
      out_response (extractHandler w st q) = Json 400 [(''error'', JStr ''Missing URL parameter'')])
   \<and> (\<forall>u m. q = Some u \<and> u \<noteq> [] \<and> urlPathname w u = Inl m \<longrightarrow>
          out_response (extractHandler w st q)
            = Json 400 [(''error'', JStr ''Invalid URL parameter''), (''message'', JStr m)]
          \<and> statusOf (out_response (extractHandler w st q)) \<noteq> 500)"
proof -
  have "out_response (extractHandler w st q) = Json 400 [(''error'', JStr ''Missing URL parameter'')]"
    if "q = None \<or> q = Some []"
    using that handler_missing [of q w st] by (auto simp: strOf_def)
  moreover have "out_response (extractHandler w st q)
            = Json 400 [(''error'', JStr ''Invalid URL parameter''), (''message'', JStr m)]
          \<and> statusOf (out_response (extractHandler w st q)) \<noteq> 500"
    if "q = Some u \<and> u \<noteq> [] \<and> urlPathname w u = Inl m" for u m
    using that handler_invalid [of q w m st] by (auto simp: strOf_def)
  ultimately show ?thesis by blast
qed

theorem url_parameter_validation_witness:
  "urlPathname samplePlatform ''not a url'' = Inl ''Invalid URL''
   \<and> out_response (extractHandler samplePlatform startupState (Some ''not a url''))
       = Json 400 [(''error'', JStr ''Invalid URL parameter''), (''message'', JStr ''Invalid URL'')]
   \<and> out_response (extractHandler samplePlatform startupState None)
       = Json 400 [(''error'', JStr ''Missing URL parameter'')]"
proof -
  have h: "urlPathname samplePlatform ''not a url'' = Inl ''Invalid URL''" by code_simp
  have "out_response (extractHandler samplePlatform startupState (Some ''not a url''))
       = Json 400 [(''error'', JStr ''Invalid URL parameter''), (''message'', JStr ''Invalid URL'')]"
    using url_parameter_validation [of "Some ''not a url''" samplePlatform startupState] h
    by simp
  moreover have "out_response (extractHandler samplePlatform startupState None)
       = Json 400 [(''error'', JStr ''Missing URL parameter'')]"
    using url_parameter_validation [of None samplePlatform startupState] by simp
  ultimately show ?thesis using h by blast
qed

theorem empty_url_counterexample:
  "urlPathname samplePlatform [] = Inl ''Invalid URL''
   \<and> field (out_response (extractHandler samplePlatform startupState (Some []))) ''error''
       = Some (JStr ''Missing URL parameter'')
   \<and> field (out_response (extractHandler samplePlatform startupState (Some []))) ''error''
       \<noteq> Some (JStr ''Invalid URL parameter'')
   \<and> field (out_response (extractHandler samplePlatform startupState (Some []))) ''message'' = None"
  by (simp add: handler_missing strOf_def samplePlatform_def samplePathname_def)

subsection \<open>C8: the fetch and the body preview\<close>

text \<open>
  C8, amended. Every call of \<open>axios\<close> made by the handler is for the requested URL, with method
  \<open>GET\<close>, response type \<open>arraybuffer\<close>, a timeout of 30000 ms and at most 5 redirects. The
  preview attached to an upstream HTTP error is: for a string body, its first 200
  characters; for a Buffer, the UTF-8 decoding of its first 200 bytes; otherwise the first
  200 characters of \<open>JSON.stringify(body)\<close>, and \<open>undefined\<close> when there is no such string.
  Read as the first 200 characters of the decoded body, the claim fails on a Buffer with
  multi-byte characters: the last theorem of this subsection.
\<close>
theorem fetch_config_and_preview:
  "(\<forall>c \<in> set (out_fetches (extractHandler w st q)).
       cfg_url c = strOf q \<and> cfg_method c = ''GET'' \<and> cfg_responseType c = ''arraybuffer''
       \<and> cfg_timeout c = 30000 \<and> cfg_maxRedirects c = 5)
   \<and> (\<forall>p fe err up.
         strOf q \<noteq> [] \<and> urlPathname w (strOf q) = Inr p
         \<and> nameAndExt (decodeURIComponent w) p = Inr fe
         \<and> axios w (requestConfig (strOf q)) = Rejected err \<and> err_response err = Some up \<longrightarrow>
         out_fetches (extractHandler w st q) = [requestConfig (strOf q)]
         \<and> field (out_response (extractHandler w st q)) ''upstreamBodyPreview''
             = Some (case up_data up of
                       StringBody s \<Rightarrow> JStr (take 200 s)
                     | BufferBody bs \<Rightarrow> JStr (utf8Decode w (take 200 bs))
                     | OtherBody None \<Rightarrow> JUndefined
                     | OtherBody (Some s) \<Rightarrow> JStr (take 200 s)))"
proof -
  have cfg: "cfg_url c = strOf q \<and> cfg_method c = ''GET'' \<and> cfg_responseType c = ''arraybuffer''
       \<and> cfg_timeout c = 30000 \<and> cfg_maxRedirects c = 5"
    if "c \<in> set (out_fetches (extractHandler w st q))" for c
  proof -
    from that out_fetches_cases [of w st q] have "c = requestConfig (strOf q)" by auto
    then show ?thesis by (simp add: requestConfig_def)
  qed
  have pv: "out_fetches (extractHandler w st q) = [requestConfig (strOf q)]
         \<and> field (out_response (extractHandler w st q)) ''upstreamBodyPreview''
             = Some (case up_data up of
                       StringBody s \<Rightarrow> JStr (take 200 s)
                     | BufferBody bs \<Rightarrow> JStr (utf8Decode w (take 200 bs))
                     | OtherBody None \<Rightarrow> JUndefined
                     | OtherBody (Some s) \<Rightarrow> JStr (take 200 s))"
    if "strOf q \<noteq> [] \<and> urlPathname w (strOf q) = Inr p
         \<and> nameAndExt (decodeURIComponent w) p = Inr fe
         \<and> axios w (requestConfig (strOf q)) = Rejected err \<and> err_response err = Some up"
    for p fe err up
  proof -
    from that have h: "strOf q \<noteq> []" "urlPathname w (strOf q) = Inr p"
      "nameAndExt (decodeURIComponent w) p = Inr fe"
      "axios w (requestConfig (strOf q)) = Rejected err" "err_response err = Some up"
      by simp_all
    have "jsOpt (bodyPreview w (up_data up)) =
            (case up_data up of
               StringBody s \<Rightarrow> JStr (take 200 s)
             | BufferBody bs \<Rightarrow> JStr (utf8Decode w (take 200 bs))
             | OtherBody None \<Rightarrow> JUndefined
             | OtherBody (Some s) \<Rightarrow> JStr (take 200 s))"
      by (simp add: bodyPreview_def jsOpt_def slice0_def split: body.splits option.splits)
    then show ?thesis
      using handler_rejected [OF h(1-4), of st] catchBlock_preview [OF h(5), of w] by simp
  qed
  from cfg pv show ?thesis by blast
qed

theorem fetch_config_and_preview_witness:
  \<open>strOf (Some ''https://files.example/gone.pdf'') \<noteq> []
   \<and> urlPathname samplePlatform (strOf (Some ''https://files.example/gone.pdf'')) = Inr ''/gone.pdf''
   \<and> nameAndExt (decodeURIComponent samplePlatform) ''/gone.pdf'' = Inr (''gone.pdf'', ''pdf'')
   \<and> axios samplePlatform (requestConfig (strOf (Some ''https://files.example/gone.pdf'')))
       = Rejected goneError
   \<and> err_response goneError = Some goneUpstream
   \<and> out_fetches (extractHandler samplePlatform startupState (Some ''https://files.example/gone.pdf''))
       = [\<lparr>cfg_url = ''https://files.example/gone.pdf'', cfg_method = ''GET'',
           cfg_responseType = ''arraybuffer'', cfg_timeout = 30000, cfg_maxRedirects = 5\<rparr>]
   \<and> field (out_response (extractHandler samplePlatform startupState
               (Some ''https://files.example/gone.pdf''))) ''upstreamBodyPreview''
       = Some (JStr ''{"error":"not found"}'')\<close>
proof -
  let ?q = "Some ''https://files.example/gone.pdf''"
  have h1: "strOf ?q \<noteq> []" by (simp add: strOf_def)
  have h2: "urlPathname samplePlatform (strOf ?q) = Inr ''/gone.pdf''" by code_simp
  have h3: "nameAndExt (decodeURIComponent samplePlatform) ''/gone.pdf'' = Inr (''gone.pdf'', ''pdf'')"
    by code_simp
  have h4: "axios samplePlatform (requestConfig (strOf ?q)) = Rejected goneError"
    by (simp add: samplePlatform_def sampleAxios_def requestConfig_def strOf_def)
  have h5: "err_response goneError = Some goneUpstream" by (simp add: goneError_def)
  have cfg: "requestConfig (strOf ?q) =
       \<lparr>cfg_url = ''https://files.example/gone.pdf'', cfg_method = ''GET'',
           cfg_responseType = ''arraybuffer'', cfg_timeout = 30000, cfg_maxRedirects = 5\<rparr>"
    by (simp add: requestConfig_def strOf_def)
  have pv: \<open>(case up_data goneUpstream of
                       StringBody s \<Rightarrow> JStr (take 200 s)
                     | BufferBody bs \<Rightarrow> JStr (utf8Decode samplePlatform (take 200 bs))
                     | OtherBody None \<Rightarrow> JUndefined
                     | OtherBody (Some s) \<Rightarrow> JStr (take 200 s))
             = JStr ''{"error":"not found"}''\<close>
    by code_simp
  from fetch_config_and_preview [of samplePlatform startupState ?q] h1 h2 h3 h4 h5
  have "out_fetches (extractHandler samplePlatform startupState ?q) = [requestConfig (strOf ?q)]
        \<and> field (out_response (extractHandler samplePlatform startupState ?q)) ''upstreamBodyPreview''
             = Some (case up_data goneUpstream of
                       StringBody s \<Rightarrow> JStr (take 200 s)
                     | BufferBody bs \<Rightarrow> JStr (utf8Decode samplePlatform (take 200 bs))
                     | OtherBody None \<Rightarrow> JUndefined
                     | OtherBody (Some s) \<Rightarrow> JStr (take 200 s))"
    by blast
  with h1 h2 h3 h4 h5 show ?thesis unfolding pv cfg by blast
qed

theorem preview_counts_bytes_counterexample:
  "up_data forbiddenUpstream = BufferBody accentedBody
   \<and> field (out_response (extractHandler samplePlatform startupState
               (Some ''https://files.example/menu.pdf''))) ''upstreamBodyPreview''
       = Some (JStr (replicate 100 (CHR 0xE9)))
   \<and> take 200 (utf8Decode samplePlatform accentedBody) = replicate 101 (CHR 0xE9)
   \<and> field (out_response (extractHandler samplePlatform startupState
               (Some ''https://files.example/menu.pdf''))) ''upstreamBodyPreview''
       \<noteq> Some (JStr (take 200 (utf8Decode samplePlatform accentedBody)))"
proof -
  have a: "up_data forbiddenUpstream = BufferBody accentedBody"
    by (simp add: forbiddenUpstream_def)
  have b: "field (out_response (extractHandler samplePlatform startupState
               (Some ''https://files.example/menu.pdf''))) ''upstreamBodyPreview''
       = Some (JStr (replicate 100 (CHR 0xE9)))"
    using handler_rejected [OF menu_reaches_fetch(1-4), of startupState]
      catchBlock_preview [OF menu_reaches_fetch(5), of samplePlatform]
    by (simp add: menu_preview jsOpt_def)
  have c: "take 200 (utf8Decode samplePlatform accentedBody) = replicate 101 (CHR 0xE9)"
    by (simp add: accented_decoded)
  have "replicate 100 (CHR 0xE9) \<noteq> replicate 101 (CHR 0xE9)"
  proof
    assume "replicate 100 (CHR 0xE9) = replicate 101 (CHR 0xE9)"
    then have "length (replicate 100 (CHR 0xE9)) = length (replicate 101 (CHR 0xE9))"
      by (rule arg_cong)
    then show False by simp
  qed
  with a b c show ?thesis by simp
qed

subsection \<open>C10: \<open>pdf\<close> before \<open>docx\<close>\<close>

text \<open>
  C10. In the content-type fallback \<open>pdf\<close> is tested first: a content type containing \<open>pdf\<close>
  together with one of the markers of \<open>docx\<close> is detected as \<open>pdf\<close>, not as \<open>docx\<close>.
\<close>
theorem pdf_checked_before_docx:
  assumes "snd (refineName w fe (finalUrlOf r u)) = []"
    and "includes_js (contentTypeOf (headers r)) ''pdf''"
    and "includes_js (contentTypeOf (headers r)) ''officedocument''
         \<or> includes_js (contentTypeOf (headers r)) ''word''
         \<or> includes_js (contentTypeOf (headers r)) ''msword''
         \<or> includes_js (contentTypeOf (headers r)) ''application/vnd''"
  shows "snd (detect w fe u r) = ''pdf'' \<and> snd (detect w fe u r) \<noteq> ''docx''"
  using assms by (simp add: detect_def inferExt_def Let_def)

theorem pdf_checked_before_docx_witness:
  "snd (refineName samplePlatform ([], []) (finalUrlOf vndPdfResponse ''https://files.example/files/'')) = []
   \<and> includes_js (contentTypeOf (headers vndPdfResponse)) ''pdf''
   \<and> includes_js (contentTypeOf (headers vndPdfResponse)) ''application/vnd''
   \<and> snd (detect samplePlatform ([], []) ''https://files.example/files/'' vndPdfResponse) = ''pdf''"
proof -
  have h: "snd (refineName samplePlatform ([], [])
                 (finalUrlOf vndPdfResponse ''https://files.example/files/'')) = []"
    by code_simp
  have pdf: "includes_js (contentTypeOf (headers vndPdfResponse)) ''pdf''"
    by code_simp
  have vnd: "includes_js (contentTypeOf (headers vndPdfResponse)) ''application/vnd''"
    by code_simp
  show ?thesis
    using h pdf vnd pdf_checked_before_docx [OF h pdf] by blast
qed

end
